theory Spec2Isabelle
  imports Main
begin

section \<open>Data of the receiver\<close>

text \<open>
  The generated SDK types are reduced to the fields the playback manager and the
  session reporter read. A JavaScript value that may be \<^verbatim>\<open>null\<close> or
  \<^verbatim>\<open>undefined\<close> is an \<open>option\<close>; tick counts and millisecond
  clock readings are integers.
\<close>

datatype PlayMethod = Transcode | DirectStream | DirectPlay

record BaseItemDto =
  Id_item :: string
  MediaType :: "string option"

record MediaSourceInfo =
  Id_source :: string
  RequiresOpening :: bool
  OpenToken :: "string option"
  SupportsDirectPlay :: bool

record PlaybackProgressInfo =
  PlayMethod :: "PlayMethod option"
  PlaySessionId :: string

text \<open>The interface \<^verbatim>\<open>PlaybackState\<close> of the playback manager.\<close>

record PlaybackState =
  startPositionTicks :: int
  mediaType :: "string option"
  itemId :: string
  audioStreamIndex :: "int option"
  subtitleStreamIndex :: "int option"
  mediaSource :: "MediaSourceInfo option"
  mediaSourceId :: string
  PlaybackMediaSource :: "MediaSourceInfo option"
  playMethod :: "PlayMethod option"
  canSeek :: bool
  isChangingStream :: bool
  playNextItemBool :: bool
  item :: "BaseItemDto option"
  liveStreamId :: string
  playSessionId :: string
  runtimeTicks :: int

text \<open>
  \<^verbatim>\<open>let pingInterval: number;\<close> is declared without a value, so it is
  \<^verbatim>\<open>undefined\<close> until the first assignment; afterwards it holds \<open>0\<close> or the
  identifier returned by \<^verbatim>\<open>setInterval\<close>.
\<close>

datatype handle = Undefined | Num nat

text \<open>
  The device profile is built outside these modules by
  \<^verbatim>\<open>getDeviceProfile({bitrateSetting, enableHls})\<close>; it is represented by the two
  settings it is built from.
\<close>

datatype DeviceProfile = DeviceProfile int bool

record PlaybackInfoResponse =
  ErrorCode :: "string option"
  MediaSources :: "MediaSourceInfo list"
  PlaySessionId_info :: string

record LiveStreamResponse =
  MediaSource :: "MediaSourceInfo option"

record StreamInfo =
  url :: string

text \<open>The \<^verbatim>\<open>options\<close> object of a play request (typed \<^verbatim>\<open>any\<close> in the source).\<close>

record options =
  opt_items :: "BaseItemDto list"
  opt_startPositionTicks :: "int option"
  opt_mediaSourceId :: "string option"
  opt_audioStreamIndex :: "int option"
  opt_subtitleStreamIndex :: "int option"

datatype error = TypeError | RequestRejected string

record PlayRequestQuery =
  UserId :: "string option"
  StartTimeTicks :: int
  MaxStreamingBitrate :: int
  LiveStreamId :: "string option"
  ItemId :: "string option"
  PlaySessionId_query :: "string option"
  AudioStreamIndex :: "int option"
  SubtitleStreamIndex :: "int option"
  MediaSourceId :: "string option"

text \<open>The custom data that \<^verbatim>\<open>createMediaInformation\<close> attaches to the media information.\<close>

record CustomData =
  cd_playSessionId :: string
  cd_audioStreamIndex :: "int option"
  cd_subtitleStreamIndex :: "int option"
  cd_startPositionTicks :: int
  cd_canSeek :: bool
  cd_itemId :: string
  cd_liveStreamId :: string
  cd_mediaSourceId :: string
  cd_playMethod :: "PlayMethod option"
  cd_runtimeTicks :: int

subsection \<open>Effects\<close>

text \<open>
  Every call that leaves the two modules (the transport, the message bus, the host's
  timers and player, the document manager, the console) is recorded, in program order,
  in a trace.
\<close>

datatype body =
    ReportBody PlaybackProgressInfo
  | PingBody string
  | PlaybackInfoBody DeviceProfile PlayRequestQuery
  | LiveStreamBody DeviceProfile "string option" PlayRequestQuery

datatype effect =
    SetInterval nat PlaybackProgressInfo nat
  | ClearInterval handle
  | BroadcastToMessageBus string PlaybackState PlaybackProgressInfo
  | AuthAjax string body
  | ConsoleDebug string
  | ConsoleLog string
  | ClearBackdropInterval
  | StartBackdropInterval
  | SetAppStatus string
  | SetWaitingBackdrop
  | SetLogo
  | SetDetailImage
  | SetPlayerBackdrop BaseItemDto
  | GetMaxBitrate
  | BroadcastConnectionErrorMessage
  | ShowPlaybackInfoErrorMessage string
  | CheckDirectPlay MediaSourceInfo
  | PlayerManagerLoad CustomData bool "int option"
  | PlayerManagerSetMediaInformation CustomData bool
  | PlayerManagerStop

subsection \<open>The state\<close>

text \<open>
  One record holds the fields of the \<^verbatim>\<open>playbackManager\<close> instance, the two
  module variables of the session reporter, the two \<^verbatim>\<open>window\<close> globals the
  manager writes, and the part of the host the reporter drives: the intervals it has
  set and not cleared (identifier and the reporting parameters its callback captured)
  and the next identifier \<^verbatim>\<open>setInterval\<close> hands out.
\<close>

record world =
  activePlaylist :: "BaseItemDto list"
  activePlaylistIndex :: int
  playbackState :: PlaybackState
  pingInterval :: handle
  lastTranscoderPing :: int
  currentPlaylistIndex :: int
  playlist :: "BaseItemDto list"
  timers :: "(nat \<times> PlaybackProgressInfo) list"
  nextTimerId :: nat
  trace :: "effect list"

definition emit :: "effect \<Rightarrow> world \<Rightarrow> world" where
  "emit e w = w\<lparr>trace := trace w @ [e]\<rparr>"

text \<open>
  The host's timer functions. \<^verbatim>\<open>clearInterval\<close> of \<^verbatim>\<open>undefined\<close>, of
  \<open>0\<close> or of an identifier that is not live cancels nothing.
\<close>

definition setInterval :: "PlaybackProgressInfo \<Rightarrow> nat \<Rightarrow> world \<Rightarrow> nat \<times> world" where
  "setInterval cb ms w =
     (let i = nextTimerId w
      in (i, (emit (SetInterval i cb ms) w)\<lparr>timers := timers w @ [(i, cb)], nextTimerId := Suc i\<rparr>))"

definition clearInterval :: "handle \<Rightarrow> world \<Rightarrow> world" where
  "clearInterval h w =
     (emit (ClearInterval h) w)\<lparr>timers := filter (\<lambda>t. Num (fst t) \<noteq> h) (timers w)\<rparr>"

section \<open>The session reporter\<close>

definition stopPingInterval :: "world \<Rightarrow> world" where
  "stopPingInterval w =
     (if pingInterval w \<noteq> Num 0
      then (clearInterval (pingInterval w) w)\<lparr>pingInterval := Num 0\<rparr>
      else w)"

definition restartPingInterval :: "PlaybackProgressInfo \<Rightarrow> world \<Rightarrow> world" where
  "restartPingInterval reportingParams w =
     (let w1 = stopPingInterval w
      in if PlayMethod reportingParams = Some Transcode
         then (let (i, w2) = setInterval reportingParams 1000 w1 in w2\<lparr>pingInterval := Num i\<rparr>)
         else w1)"

definition reportPlaybackStart :: "PlaybackState \<Rightarrow> PlaybackProgressInfo \<Rightarrow> world \<Rightarrow> world" where
  "reportPlaybackStart state reportingParams w =
     (let w1 = emit ClearBackdropInterval w;
          w2 = emit (BroadcastToMessageBus ''playbackstart'' state reportingParams) w1;
          w3 = restartPingInterval reportingParams w2
      in emit (AuthAjax ''Sessions/Playing'' (ReportBody reportingParams)) w3)"

text \<open>
  \<open>now\<close> is the value of \<^verbatim>\<open>new Date().getTime()\<close>; the two defaulted
  parameters are passed explicitly.
\<close>

definition reportPlaybackProgress ::
  "PlaybackState \<Rightarrow> PlaybackProgressInfo \<Rightarrow> bool \<Rightarrow> string \<Rightarrow> int \<Rightarrow> world \<Rightarrow> world" where
  "reportPlaybackProgress state reportingParams reportToServer broadcastEventName now w =
     (let w1 = emit (BroadcastToMessageBus broadcastEventName state reportingParams) w
      in if reportToServer = False then w1
         else (let w2 = restartPingInterval reportingParams w1;
                   w3 = w2\<lparr>lastTranscoderPing := now\<rparr>
               in emit (AuthAjax ''Sessions/Playing/Progress'' (ReportBody reportingParams)) w3))"

definition reportPlaybackStopped :: "PlaybackState \<Rightarrow> PlaybackProgressInfo \<Rightarrow> world \<Rightarrow> world" where
  "reportPlaybackStopped state reportingParams w =
     (let w1 = stopPingInterval w;
          w2 = emit (BroadcastToMessageBus ''playbackstop'' state reportingParams) w1
      in emit (AuthAjax ''Sessions/Playing/Stopped'' (ReportBody reportingParams)) w2)"

text \<open>
  \<^verbatim>\<open>pingTranscoder\<close> reads the clock twice: \<open>now\<close> for the comparison and
  \<open>now2\<close> for the stored timestamp. The promise of the request is returned to the
  caller; nothing in the module looks at its outcome.
\<close>

definition pingTranscoder :: "PlaybackProgressInfo \<Rightarrow> int \<Rightarrow> int \<Rightarrow> world \<Rightarrow> world" where
  "pingTranscoder reportingParams now now2 w =
     (if now - lastTranscoderPing w < 5000
      then emit (ConsoleDebug ''Skipping ping due to recent progress check-in'') w
      else emit (AuthAjax (''Sessions/Playing/Ping?playSessionId='' @ PlaySessionId reportingParams)
                   (PingBody (PlaySessionId reportingParams)))
             (w\<lparr>lastTranscoderPing := now2\<rparr>))"

text \<open>
  A tick of interval \<open>i\<close>: the host runs the callback
  \<^verbatim>\<open>() => { pingTranscoder(reportingParams); }\<close> of a live interval and never
  runs the callback of a cleared one.
\<close>

definition tick :: "nat \<Rightarrow> int \<Rightarrow> int \<Rightarrow> world \<Rightarrow> world" where
  "tick i now now2 w =
     (case map_of (timers w) i of
        None \<Rightarrow> w
      | Some reportingParams \<Rightarrow> pingTranscoder reportingParams now now2 w)"

section \<open>The playback manager\<close>

subsection \<open>Collaborators outside the two modules\<close>

text \<open>
  The helpers of \<^verbatim>\<open>helpers\<close> and \<^verbatim>\<open>maincontroller\<close> and the answers
  of the server are parameters. \<open>getNextPlaybackItemInfo\<close> reads the state and returns
  the next index and item, if any; a request that the transport rejects has no response
  (\<open>None\<close>). \<open>checkDirectPlay\<close> works on the object it is given, so it returns the
  source as it leaves it.
\<close>

record env =
  getNextPlaybackItemInfo :: "world \<Rightarrow> (int \<times> BaseItemDto) option"
  getMaxBitrate :: int
  userId :: "string option"
  playbackInfoResponse :: "PlaybackInfoResponse option"
  getOptimalMediaSource :: "MediaSourceInfo list \<Rightarrow> MediaSourceInfo option"
  liveStreamResponse :: "LiveStreamResponse option"
  checkDirectPlay :: "MediaSourceInfo \<Rightarrow> MediaSourceInfo"
  createStreamInfo :: "BaseItemDto \<Rightarrow> MediaSourceInfo \<Rightarrow> int option \<Rightarrow> StreamInfo"
  createMediaInformation :: "string \<Rightarrow> BaseItemDto \<Rightarrow> StreamInfo \<Rightarrow> CustomData"

subsection \<open>The playback state\<close>

text \<open>The initializer of the field \<^verbatim>\<open>playbackState\<close>.\<close>

definition initialPlaybackState :: PlaybackState where
  "initialPlaybackState =
     \<lparr>startPositionTicks = 0, mediaType = Some '''', itemId = '''',
      audioStreamIndex = None, subtitleStreamIndex = None, mediaSource = None,
      mediaSourceId = '''', PlaybackMediaSource = None, playMethod = None,
      canSeek = False, isChangingStream = False, playNextItemBool = True,
      item = None, liveStreamId = '''', playSessionId = '''', runtimeTicks = 0\<rparr>"

definition setState :: "(PlaybackState \<Rightarrow> PlaybackState) \<Rightarrow> world \<Rightarrow> world" where
  "setState f w = w\<lparr>playbackState := f (playbackState w)\<rparr>"

definition resetPlaybackScope :: "world \<Rightarrow> world" where
  "resetPlaybackScope w =
     (let w1 = emit (SetAppStatus ''waiting'') w;
          w2 = setState (\<lambda>s. s\<lparr>startPositionTicks := 0\<rparr>) w1;
          w3 = emit SetWaitingBackdrop w2;
          w4 = setState (\<lambda>s. s\<lparr>mediaType := Some '''', itemId := '''',
                 audioStreamIndex := None, subtitleStreamIndex := None, mediaSource := None,
                 mediaSourceId := '''', PlaybackMediaSource := None,
                 playMethod := None, canSeek := False, isChangingStream := False,
                 playNextItemBool := True,
                 item := None, liveStreamId := '''', playSessionId := ''''\<rparr>) w3;
          w5 = emit SetLogo w4
      in emit SetDetailImage w5)"

text \<open>\<^verbatim>\<open>load\<close> of the session reporter's module.\<close>

definition load :: "CustomData \<Rightarrow> BaseItemDto \<Rightarrow> world \<Rightarrow> world" where
  "load customData serverItem w =
     (let w1 = resetPlaybackScope w;
          w2 = setState (\<lambda>s. s\<lparr>playSessionId := cd_playSessionId customData,
                 audioStreamIndex := cd_audioStreamIndex customData,
                 subtitleStreamIndex := cd_subtitleStreamIndex customData,
                 startPositionTicks := cd_startPositionTicks customData,
                 canSeek := cd_canSeek customData,
                 itemId := cd_itemId customData,
                 liveStreamId := cd_liveStreamId customData,
                 mediaSourceId := cd_mediaSourceId customData,
                 playMethod := cd_playMethod customData,
                 runtimeTicks := cd_runtimeTicks customData,
                 item := Some serverItem\<rparr>) w1;
          w3 = emit (SetAppStatus ''backdrop'') w2
      in setState (\<lambda>s. s\<lparr>mediaType := MediaType serverItem\<rparr>) w3)"

subsection \<open>Requests of the negotiation\<close>

text \<open>\<^verbatim>\<open>if (mediaSourceId)\<close>: an absent or empty string is not sent.\<close>

definition truthy :: "string option \<Rightarrow> string option" where
  "truthy s = (case s of None \<Rightarrow> None | Some x \<Rightarrow> if x = '''' then None else Some x)"

text \<open>\<^verbatim>\<open>startPosition || 0\<close>.\<close>

definition orZero :: "int option \<Rightarrow> int" where
  "orZero n = (case n of None \<Rightarrow> 0 | Some k \<Rightarrow> k)"

definition getPlaybackInfo ::
  "env \<Rightarrow> BaseItemDto \<Rightarrow> int \<Rightarrow> DeviceProfile \<Rightarrow> int option \<Rightarrow> string option \<Rightarrow>
   int option \<Rightarrow> int option \<Rightarrow> string option \<Rightarrow> world \<Rightarrow> world" where
  "getPlaybackInfo env item' maxBitrate deviceProfile startPosition mediaSourceId'
     audioStreamIndex' subtitleStreamIndex' liveStreamId' w =
     (let query = \<lparr>UserId = userId env, StartTimeTicks = orZero startPosition,
                    MaxStreamingBitrate = maxBitrate, LiveStreamId = truthy liveStreamId',
                    ItemId = None, PlaySessionId_query = None,
                    AudioStreamIndex = audioStreamIndex',
                    SubtitleStreamIndex = subtitleStreamIndex',
                    MediaSourceId = truthy mediaSourceId'\<rparr>
      in emit (AuthAjax (''Items/'' @ Id_item item' @ ''/PlaybackInfo'')
                 (PlaybackInfoBody deviceProfile query)) w)"

definition getLiveStream ::
  "env \<Rightarrow> BaseItemDto \<Rightarrow> string \<Rightarrow> int \<Rightarrow> DeviceProfile \<Rightarrow> int option \<Rightarrow> MediaSourceInfo \<Rightarrow>
   int option \<Rightarrow> int option \<Rightarrow> world \<Rightarrow> world" where
  "getLiveStream env item' playSessionId' maxBitrate deviceProfile startPosition mediaSource'
     audioStreamIndex' subtitleStreamIndex' w =
     (let query = \<lparr>UserId = userId env, StartTimeTicks = orZero startPosition,
                    MaxStreamingBitrate = maxBitrate, LiveStreamId = None,
                    ItemId = Some (Id_item item'), PlaySessionId_query = Some playSessionId',
                    AudioStreamIndex = audioStreamIndex',
                    SubtitleStreamIndex = subtitleStreamIndex',
                    MediaSourceId = None\<rparr>
      in emit (AuthAjax ''LiveStreams/Open''
                 (LiveStreamBody deviceProfile (OpenToken mediaSource') query)) w)"

subsection \<open>Operations of the manager\<close>

text \<open>
  The seek position handed to the player is \<open>startPositionTicks / 10000000\<close> seconds;
  the trace keeps the ticks.
\<close>

definition playMediaSource ::
  "env \<Rightarrow> string \<Rightarrow> BaseItemDto \<Rightarrow> MediaSourceInfo \<Rightarrow> options \<Rightarrow> world \<Rightarrow> world" where
  "playMediaSource env playSessionId' item' mediaSource' options w =
     (let w1 = emit (SetAppStatus ''loading'') w;
          streamInfo = createStreamInfo env item' mediaSource' (opt_startPositionTicks options);
          customData = createMediaInformation env playSessionId' item' streamInfo;
          currentTime = (if cd_startPositionTicks customData > 0
                         then Some (cd_startPositionTicks customData) else None);
          w2 = load customData item' w1;
          w3 = emit (PlayerManagerLoad customData True currentTime) w2;
          w4 = setState (\<lambda>s. s\<lparr>PlaybackMediaSource := Some mediaSource'\<rparr>) w3;
          w5 = emit (ConsoleLog (''setting src to '' @ url streamInfo)) w4;
          w6 = setState (\<lambda>s. s\<lparr>mediaSource := Some mediaSource'\<rparr>) w5;
          w7 = emit (SetPlayerBackdrop item') w6
      in emit (PlayerManagerSetMediaInformation customData False) w7)"

text \<open>
  \<^verbatim>\<open>playItemInternal\<close>. An \<^verbatim>\<open>undefined\<close> item (\<open>None\<close>) makes
  \<^verbatim>\<open>getPlaybackInfo\<close> throw at \<^verbatim>\<open>item.Id\<close>. A rejected playback-info request
  is caught by \<^verbatim>\<open>broadcastConnectionErrorMessage\<close>, whose result (nothing) then
  takes the place of the response, so reading \<^verbatim>\<open>ErrorCode\<close> throws. A rejected
  live-stream request is not caught.
\<close>

definition playItemInternal ::
  "env \<Rightarrow> BaseItemDto option \<Rightarrow> options \<Rightarrow> world \<Rightarrow> (error + unit) \<times> world" where
  "playItemInternal env item' options w =
     (let w1 = setState (\<lambda>s. s\<lparr>isChangingStream := False\<rparr>) w;
          w2 = emit (SetAppStatus ''loading'') w1;
          w3 = emit GetMaxBitrate w2;
          maxBitrate = getMaxBitrate env;
          deviceProfile = DeviceProfile maxBitrate True
      in case item' of
           None \<Rightarrow> (Inl TypeError, w3)
         | Some it \<Rightarrow>
             (let w4 = getPlaybackInfo env it maxBitrate deviceProfile
                         (opt_startPositionTicks options) (opt_mediaSourceId options)
                         (opt_audioStreamIndex options) (opt_subtitleStreamIndex options) None w3
              in case playbackInfoResponse env of
                   None \<Rightarrow> (Inl TypeError, emit BroadcastConnectionErrorMessage w4)
                 | Some playbackInfo \<Rightarrow>
                     (case truthy (ErrorCode playbackInfo) of
                        Some code \<Rightarrow> (Inr (), emit (ShowPlaybackInfoErrorMessage code) w4)
                      | None \<Rightarrow>
                          (case getOptimalMediaSource env (MediaSources playbackInfo) of
                             None \<Rightarrow>
                               (Inr (), emit (ShowPlaybackInfoErrorMessage ''NoCompatibleStream'') w4)
                           | Some mediaSource' \<Rightarrow>
                               (let (r, w5) =
                                      (if RequiresOpening mediaSource'
                                       then (let w41 = getLiveStream env it
                                                         (PlaySessionId_info playbackInfo) maxBitrate
                                                         deviceProfile (opt_startPositionTicks options)
                                                         mediaSource' None None w4
                                             in case liveStreamResponse env of
                                                  None \<Rightarrow>
                                                    (Inl (RequestRejected ''LiveStreams/Open''), w41)
                                                | Some openLiveStreamResult \<Rightarrow>
                                                    (case MediaSource openLiveStreamResult of
                                                       None \<Rightarrow> (Inr mediaSource', w41)
                                                     | Some opened \<Rightarrow>
                                                         (Inr (checkDirectPlay env opened),
                                                          emit (CheckDirectPlay opened) w41)))
                                       else (Inr mediaSource', w4))
                                in case r of
                                     Inl e \<Rightarrow> (Inl e, w5)
                                   | Inr itemToPlay \<Rightarrow>
                                       (Inr (), playMediaSource env (PlaySessionId_info playbackInfo)
                                                  it itemToPlay options w5))))))"

text \<open>
  Modelled from the spec: \<^verbatim>\<open>getReportingParams\<close> of the helpers is not in the
  source. The spec has the reports of a session carry its play session and its play
  method, which the playback state holds.
\<close>

definition getReportingParams :: "PlaybackState \<Rightarrow> PlaybackProgressInfo" where
  "getReportingParams state = \<lparr>PlayMethod = playMethod state, PlaySessionId = playSessionId state\<rparr>"

text \<open>
  Modelled from the spec: \<^verbatim>\<open>stop\<close> of the session reporter's module, which the
  manager imports and calls in its own \<^verbatim>\<open>stop\<close>, is not in the source. The spec
  says that the manager's stop ``issues the server-side stopped report'': the report
  of the stop for the session of the playback state.
\<close>

definition jellyfinActions_stop :: "world \<Rightarrow> world" where
  "jellyfinActions_stop w =
     reportPlaybackStopped (playbackState w) (getReportingParams (playbackState w)) w"

definition stop :: "bool \<Rightarrow> world \<Rightarrow> world" where
  "stop continuing w =
     (let w1 = setState (\<lambda>s. s\<lparr>playNextItemBool := continuing\<rparr>) w;
          w2 = jellyfinActions_stop w1;
          w3 = stopPingInterval w2;
          w4 = emit PlayerManagerStop w3;
          w5 = w4\<lparr>activePlaylist := [], activePlaylistIndex := - 1\<rparr>
      in emit StartBackdropInterval w5)"

text \<open>
  Modelled from the spec: \<^verbatim>\<open>onStopPlayerBeforePlaybackDone\<close> of the main controller
  is not in the source. The spec says that \<^verbatim>\<open>playItem\<close>, after the stop,
  negotiates the new item: the item and the options go to \<^verbatim>\<open>playItemInternal\<close>.
\<close>

definition onStopPlayerBeforePlaybackDone ::
  "env \<Rightarrow> BaseItemDto option \<Rightarrow> options \<Rightarrow> world \<Rightarrow> (error + unit) \<times> world" where
  "onStopPlayerBeforePlaybackDone env item' options w = playItemInternal env item' options w"

definition playItem ::
  "env \<Rightarrow> BaseItemDto option \<Rightarrow> options \<Rightarrow> bool \<Rightarrow> world \<Rightarrow> (error + unit) \<times> world" where
  "playItem env item' options stopPlayer w =
     (let w1 = (if stopPlayer then stop True w else w)
      in onStopPlayerBeforePlaybackDone env item' options w1)"

text \<open>
  \<^verbatim>\<open>playNextItem\<close> and \<^verbatim>\<open>playPreviousItem\<close> start \<^verbatim>\<open>playItem\<close> and
  return without looking at its promise. \<^verbatim>\<open>activePlaylist\<close> is an array, which is
  never falsy; reading it beyond its end gives \<^verbatim>\<open>undefined\<close>.
\<close>

definition playNextItem :: "env \<Rightarrow> options \<Rightarrow> bool \<Rightarrow> world \<Rightarrow> bool \<times> world" where
  "playNextItem env options stopPlayer w =
     (case getNextPlaybackItemInfo env w of
        Some (index, item') \<Rightarrow>
          (let w1 = w\<lparr>activePlaylistIndex := index\<rparr>
           in (True, snd (playItem env (Some item') options stopPlayer w1)))
      | None \<Rightarrow> (False, w))"

definition at :: "'a list \<Rightarrow> int \<Rightarrow> 'a option" where
  "at xs i = (if 0 \<le> i \<and> i < int (length xs) then Some (xs ! nat i) else None)"

definition playPreviousItem :: "env \<Rightarrow> options \<Rightarrow> world \<Rightarrow> bool \<times> world" where
  "playPreviousItem env options w =
     (if activePlaylistIndex w > 0
      then (let w1 = w\<lparr>activePlaylistIndex := activePlaylistIndex w - 1\<rparr>;
                item' = at (activePlaylist w1) (activePlaylistIndex w1)
            in (True, snd (playItem env item' options True w1)))
      else (False, w))"

definition playFromOptionsInternal :: "env \<Rightarrow> options \<Rightarrow> world \<Rightarrow> bool \<times> world" where
  "playFromOptionsInternal env options w =
     (let stopPlayer = (length (activePlaylist w) > 0);
          w1 = w\<lparr>activePlaylist := opt_items options\<rparr>;
          w2 = w1\<lparr>currentPlaylistIndex := - 1\<rparr>;
          w3 = w2\<lparr>playlist := activePlaylist w2\<rparr>
      in playNextItem env options stopPlayer w3)"

section \<open>Bitrate detection\<close>

text \<open>
  A JavaScript number, which a division by zero may have made infinite or undefined.
  Byte counts and bitrates are integers.
\<close>

datatype number = Fin int | PosInfinity | NegInfinity | NaN

text \<open>\<^verbatim>\<open>Math.round\<close> of the quotient \<open>p / q\<close>: to the nearest integer, halves up.\<close>

definition mathRound :: "int \<Rightarrow> int \<Rightarrow> int" where
  "mathRound p q =
     (if q > 0 then (2 * p + q) div (2 * q) else (2 * (- p) + (- q)) div (2 * (- q)))"

definition byteLimit :: int where
  "byteLimit = 10000000"

text \<open>
  \<^verbatim>\<open>bitrate * (2 / 8.0) < numBytes\<close>, which the doubles decide exactly, and
  \<^verbatim>\<open>Math.round(bitrate * 0.8)\<close>, where four fifths of an integer are never half
  way between two integers.
\<close>

fun belowQuarter :: "number \<Rightarrow> int \<Rightarrow> bool" where
  "belowQuarter (Fin b) n = (b < 4 * n)"
| "belowQuarter PosInfinity n = False"
| "belowQuarter NegInfinity n = True"
| "belowQuarter NaN n = False"

fun fourFifths :: "number \<Rightarrow> number" where
  "fourFifths (Fin b) = Fin (mathRound (4 * b) 5)"
| "fourFifths x = x"

text \<open>
  \<^verbatim>\<open>detectBitrate\<close>. \<^verbatim>\<open>getDownloadSpeed\<close> times a download with the clock and
  computes the bitrate in double arithmetic; neither is modelled. It is a parameter:
  for the \<open>k\<close>-th call and the size it is called with, the rejection of the request or
  of the download, or the number the call returns, whatever it is. The recursion has no
  bound of its own, so the function is partial: \<open>None\<close> is a call that never returns.
\<close>

partial_function (option) detectBitrate ::
  "(nat \<Rightarrow> int \<Rightarrow> error + number) \<Rightarrow> nat \<Rightarrow> int \<Rightarrow> (error + number) option" where
  "detectBitrate getDownloadSpeed k numBytes0 =
     (let numBytes = (if numBytes0 > byteLimit then byteLimit else numBytes0)
      in case getDownloadSpeed k numBytes of
           Inl e \<Rightarrow> Some (Inl e)
         | Inr bitrate \<Rightarrow>
             if belowQuarter bitrate numBytes \<or> numBytes \<ge> byteLimit
             then Some (Inr (fourFifths bitrate))
             else detectBitrate getDownloadSpeed (Suc k) (numBytes * 2))"

section \<open>Runs of the reporter\<close>

text \<open>
  The calls that reach the reporter's two variables and its timer: the three reports,
  a tick of an interval (with the two clock readings and the outcome of the ping
  request, which no code of the module receives), \<^verbatim>\<open>stopPingInterval\<close>, the
  manager's \<^verbatim>\<open>stop\<close> and its \<^verbatim>\<open>playItem\<close>, through which the other operations
  of the manager stop and negotiate. The reports are made about the manager's playback
  state.
\<close>

datatype op =
    ReportStart PlaybackProgressInfo
  | ReportProgress PlaybackProgressInfo bool string int
  | ReportStop PlaybackProgressInfo
  | Tick nat int int bool
  | StopPingInterval
  | ManagerStop bool
  | PlayItem env "BaseItemDto option" options bool

fun step :: "op \<Rightarrow> world \<Rightarrow> world" where
  "step (ReportStart p) w = reportPlaybackStart (playbackState w) p w"
| "step (ReportProgress p reportToServer name now) w =
     reportPlaybackProgress (playbackState w) p reportToServer name now w"
| "step (ReportStop p) w = reportPlaybackStopped (playbackState w) p w"
| "step (Tick i now now2 ok) w = tick i now now2 w"
| "step StopPingInterval w = stopPingInterval w"
| "step (ManagerStop continuing) w = stop continuing w"
| "step (PlayItem env i opts stopPlayer) w = snd (playItem env i opts stopPlayer w)"

fun run :: "op list \<Rightarrow> world \<Rightarrow> world" where
  "run [] w = w"
| "run (x # xs) w = run xs (step x w)"

text \<open>The state in which the modules have been loaded and nothing has been reported.\<close>

definition fresh :: "world \<Rightarrow> bool" where
  "fresh w \<longleftrightarrow>
     pingInterval w = Undefined \<and> lastTranscoderPing w = 0 \<and> timers w = [] \<and> 0 < nextTimerId w"

text \<open>
  The invariant of the timer: the host holds no interval of the reporter, or exactly
  one, whose identifier is the value of \<^verbatim>\<open>pingInterval\<close>. Identifiers are positive
  and never handed out twice.
\<close>

definition timerInv :: "world \<Rightarrow> bool" where
  "timerInv w \<longleftrightarrow>
     0 < nextTimerId w \<and> length (timers w) \<le> 1 \<and>
     list_all (\<lambda>t. pingInterval w = Num (fst t) \<and> 0 < fst t \<and> fst t < nextTimerId w) (timers w)"

text \<open>What a call added to the trace.\<close>

definition newEffects :: "world \<Rightarrow> world \<Rightarrow> effect list" where
  "newEffects w w' = drop (length (trace w)) (trace w')"

fun isRequest :: "effect \<Rightarrow> bool" where
  "isRequest (AuthAjax path b) = True"
| "isRequest e = False"

fun isPing :: "effect \<Rightarrow> bool" where
  "isPing (AuthAjax path (PingBody sid)) = True"
| "isPing e = False"

fun isStopReport :: "effect \<Rightarrow> bool" where
  "isStopReport (AuthAjax path (ReportBody p)) = (path = ''Sessions/Playing/Stopped'')"
| "isStopReport e = False"

fun isPlaybackInfoRequest :: "effect \<Rightarrow> bool" where
  "isPlaybackInfoRequest (AuthAjax path (PlaybackInfoBody d q)) = True"
| "isPlaybackInfoRequest e = False"

subsection \<open>The timer as the spec describes it\<close>

text \<open>
  What a call says about the timer: \<open>Some True\<close> when it declares a transcode,
  \<open>Some False\<close> when it declares another play method or stops, \<open>None\<close> when it
  says nothing. \<open>declares\<close> follows the reporter, where a progress report that is not
  sent to the server says nothing; \<open>declaresAsStated\<close> counts every progress report.
\<close>

fun declares :: "op \<Rightarrow> bool option" where
  "declares (ReportStart p) = Some (PlayMethod p = Some Transcode)"
| "declares (ReportProgress p reportToServer name now) =
     (if reportToServer then Some (PlayMethod p = Some Transcode) else None)"
| "declares (ReportStop p) = Some False"
| "declares (Tick i now now2 ok) = None"
| "declares StopPingInterval = Some False"
| "declares (ManagerStop continuing) = Some False"
| "declares (PlayItem env i opts stopPlayer) = (if stopPlayer then Some False else None)"

fun declaresAsStated :: "op \<Rightarrow> bool option" where
  "declaresAsStated (ReportProgress p reportToServer name now) =
     Some (PlayMethod p = Some Transcode)"
| "declaresAsStated x = declares x"

definition lastDeclared :: "(op \<Rightarrow> bool option) \<Rightarrow> op list \<Rightarrow> bool" where
  "lastDeclared f xs = (case rev (List.map_filter f xs) of [] \<Rightarrow> False | b # bs \<Rightarrow> b)"

definition timerLive :: "world \<Rightarrow> bool" where
  "timerLive w \<longleftrightarrow> timers w \<noteq> []"

subsection \<open>The pings of a run\<close>

text \<open>
  The clock readings of a run, in the order they are taken, and the times at which
  its ticks issue the ping request (the reading stored as the timestamp).
\<close>

fun clockReadings :: "op list \<Rightarrow> int list" where
  "clockReadings [] = []"
| "clockReadings (ReportProgress p reportToServer name now # xs) =
     (if reportToServer then [now] else []) @ clockReadings xs"
| "clockReadings (Tick i now now2 ok # xs) = now # now2 # clockReadings xs"
| "clockReadings (x # xs) = clockReadings xs"

fun pingTimes :: "op list \<Rightarrow> world \<Rightarrow> int list" where
  "pingTimes [] w = []"
| "pingTimes (Tick i now now2 ok # xs) w =
     (if filter isPing (newEffects w (tick i now now2 w)) = [] then [] else [now2])
       @ pingTimes xs (tick i now now2 w)"
| "pingTimes (x # xs) w = pingTimes xs (step x w)"

fun isTick :: "op \<Rightarrow> bool" where
  "isTick (Tick i now now2 ok) = True"
| "isTick x = False"

subsection \<open>The previous item of the playlist\<close>

text \<open>The playlist holds an item at the position before the current one.\<close>

definition hasPreviousItem :: "world \<Rightarrow> bool" where
  "hasPreviousItem w \<longleftrightarrow> at (activePlaylist w) (activePlaylistIndex w - 1) \<noteq> None"

text \<open>Calling an operation \<open>n\<close> times in a row: the results and the last state.\<close>

fun repeatedly :: "nat \<Rightarrow> ('a \<Rightarrow> bool \<times> 'a) \<Rightarrow> 'a \<Rightarrow> bool list \<times> 'a" where
  "repeatedly 0 f w = ([], w)"
| "repeatedly (Suc n) f w =
     (let (b, w1) = f w; (bs, w2) = repeatedly n f w1 in (b # bs, w2))"

section \<open>Sample data\<close>

definition newWorld :: world where
  "newWorld =
     \<lparr>activePlaylist = [], activePlaylistIndex = 0, playbackState = initialPlaybackState,
      pingInterval = Undefined, lastTranscoderPing = 0, currentPlaylistIndex = - 1,
      playlist = [], timers = [], nextTimerId = 1, trace = []\<rparr>"

definition transcodeParams :: PlaybackProgressInfo where
  "transcodeParams = \<lparr>PlayMethod = Some Transcode, PlaySessionId = ''session-a''\<rparr>"

definition directParams :: PlaybackProgressInfo where
  "directParams = \<lparr>PlayMethod = Some DirectPlay, PlaySessionId = ''session-a''\<rparr>"

text \<open>
  The scenario of the coalescing property, from a time \<open>t\<close> on: progress is reported to
  the server at \<open>t\<close>, which sets interval 1, the interval ticks one second later, and
  three seconds after \<open>t\<close> progress is reported again, to the senders only, so that the
  first report stays the last event that has set the timestamp.
\<close>

definition coalescingScenario :: "int \<Rightarrow> op list" where
  "coalescingScenario t =
     [ReportProgress transcodeParams True ''playbackprogress'' t,
      Tick 1 (t + 1000) (t + 1000) True,
      ReportProgress transcodeParams False ''playbackprogress'' (t + 3000)]"

text \<open>
  The same with the second report sent to the server as well: it sets the timestamp, and
  it clears interval 1 and sets interval 2.
\<close>

definition serverReportScenario :: "int \<Rightarrow> op list" where
  "serverReportScenario t =
     [ReportProgress transcodeParams True ''playbackprogress'' t,
      Tick 1 (t + 1000) (t + 1000) True,
      ReportProgress transcodeParams True ''playbackprogress'' (t + 3000)]"

text \<open>A playback state left over from a session.\<close>

definition staleWorld :: world where
  "staleWorld =
     newWorld\<lparr>playbackState :=
       initialPlaybackState\<lparr>itemId := ''item-a'', playSessionId := ''session-a'',
         playMethod := Some Transcode, runtimeTicks := 36000000000\<rparr>\<rparr>"

definition itemA :: BaseItemDto where
  "itemA = \<lparr>Id_item = ''item-a'', MediaType = Some ''Video''\<rparr>"

definition itemB :: BaseItemDto where
  "itemB = \<lparr>Id_item = ''item-b'', MediaType = Some ''Video''\<rparr>"

text \<open>A tuner source that has to be opened, and the source the server opens for it.\<close>

definition tunerSource :: MediaSourceInfo where
  "tunerSource =
     \<lparr>Id_source = ''tuner'', RequiresOpening = True, OpenToken = Some ''token'',
      SupportsDirectPlay = False\<rparr>"

definition openedSource :: MediaSourceInfo where
  "openedSource =
     \<lparr>Id_source = ''tuner-live'', RequiresOpening = False, OpenToken = None,
      SupportsDirectPlay = True\<rparr>"

definition sampleOptions :: options where
  "sampleOptions =
     \<lparr>opt_items = [itemA, itemB], opt_startPositionTicks = None, opt_mediaSourceId = None,
      opt_audioStreamIndex = None, opt_subtitleStreamIndex = None\<rparr>"

definition sampleCustomData :: "string \<Rightarrow> BaseItemDto \<Rightarrow> StreamInfo \<Rightarrow> CustomData" where
  "sampleCustomData sid i streamInfo =
     \<lparr>cd_playSessionId = sid, cd_audioStreamIndex = None, cd_subtitleStreamIndex = None,
      cd_startPositionTicks = 0, cd_canSeek = False, cd_itemId = Id_item i,
      cd_liveStreamId = '''', cd_mediaSourceId = '''', cd_playMethod = Some DirectStream,
      cd_runtimeTicks = 0\<rparr>"

text \<open>
  Collaborators for the examples: no next item, one tuner source in the playback
  info, which the server opens; \<^verbatim>\<open>checkDirectPlay\<close> withdraws direct play.
\<close>

definition sampleEnv :: env where
  "sampleEnv =
     \<lparr>getNextPlaybackItemInfo = (\<lambda>w. None),
      getMaxBitrate = 8000000,
      userId = Some ''user'',
      playbackInfoResponse =
        Some \<lparr>ErrorCode = None, MediaSources = [tunerSource], PlaySessionId_info = ''session-b''\<rparr>,
      getOptimalMediaSource = (\<lambda>sources. case sources of [] \<Rightarrow> None | s # rest \<Rightarrow> Some s),
      liveStreamResponse = Some \<lparr>MediaSource = Some openedSource\<rparr>,
      checkDirectPlay = (\<lambda>s. s\<lparr>SupportsDirectPlay := False\<rparr>),
      createStreamInfo = (\<lambda>i s t. \<lparr>url = ''stream/'' @ Id_source s\<rparr>),
      createMediaInformation = sampleCustomData\<rparr>"

text \<open>The same, with the second item of a playlist as the next one.\<close>

definition secondItemEnv :: env where
  "secondItemEnv = sampleEnv\<lparr>getNextPlaybackItemInfo := (\<lambda>w. Some (1, itemB))\<rparr>"

text \<open>The same, with the first item of a playlist as the next one.\<close>

definition firstItemEnv :: env where
  "firstItemEnv = sampleEnv\<lparr>getNextPlaybackItemInfo := (\<lambda>w. Some (0, itemA))\<rparr>"

text \<open>
  The manager after a walk through a playlist of two items: the playlist is started
  from the options, played on to the second item, taken back to the first, and played
  on to the second again. \<^verbatim>\<open>getNextPlaybackItemInfo\<close> answers with the first, the
  second and again the second item of the playlist.
\<close>

definition walkedWorld :: world where
  "walkedWorld =
     snd (playNextItem secondItemEnv sampleOptions False
       (snd (playPreviousItem sampleEnv sampleOptions
         (snd (playNextItem secondItemEnv sampleOptions False
           (snd (playFromOptionsInternal firstItemEnv sampleOptions newWorld)))))))"

text \<open>The same, with a live-stream request that the transport rejects.\<close>

definition rejectingEnv :: env where
  "rejectingEnv = sampleEnv\<lparr>liveStreamResponse := None\<rparr>"

text \<open>
  Downloads that each take exactly one second: \<^verbatim>\<open>getDownloadSpeed\<close> returns
  \<open>byteSize / 1 * 8\<close>, eight times the size, and \<open>0\<close> for no bytes.
\<close>

definition oneSecondDownloads :: "nat \<Rightarrow> int \<Rightarrow> error + number" where
  "oneSecondDownloads k byteSize = Inr (Fin (byteSize * 8))"

section \<open>Properties of the session reporter\<close>

lemmas reporter_defs = reportPlaybackProgress_def reportPlaybackStart_def reportPlaybackStopped_def
  restartPingInterval_def stopPingInterval_def clearInterval_def setInterval_def emit_def
  pingTranscoder_def

text \<open>
  C8. \<^verbatim>\<open>reportPlaybackProgress\<close> always broadcasts first. With \<open>reportToServer\<close>
  false nothing else happens: no request, no change of the timer or of the timestamp of
  the last ping. With \<open>reportToServer\<close> true the timer is restarted (the old interval
  cleared, a new one set for a transcode), the timestamp becomes the current time, and
  the progress is posted last.
\<close>

theorem reportPlaybackProgress_broadcasts_then_reports:
  "newEffects w (reportPlaybackProgress state p reportToServer name now w) =
     BroadcastToMessageBus name state p #
       (if reportToServer
        then (if pingInterval w \<noteq> Num 0 then [ClearInterval (pingInterval w)] else [])
             @ (if PlayMethod p = Some Transcode then [SetInterval (nextTimerId w) p 1000] else [])
             @ [AuthAjax ''Sessions/Playing/Progress'' (ReportBody p)]
        else [])
   \<and> (\<not> reportToServer \<longrightarrow>
        reportPlaybackProgress state p reportToServer name now w
          = w\<lparr>trace := trace w @ [BroadcastToMessageBus name state p]\<rparr>)
   \<and> (reportToServer \<longrightarrow>
        lastTranscoderPing (reportPlaybackProgress state p reportToServer name now w) = now
        \<and> timers (reportPlaybackProgress state p reportToServer name now w)
            = timers (restartPingInterval p w)
        \<and> pingInterval (reportPlaybackProgress state p reportToServer name now w)
            = pingInterval (restartPingInterval p w))"
  by (simp add: reporter_defs newEffects_def Let_def)

theorem reportPlaybackProgress_witness:
  "reportPlaybackProgress initialPlaybackState transcodeParams False ''playbackprogress'' 7000 newWorld
     = newWorld\<lparr>trace := [BroadcastToMessageBus ''playbackprogress'' initialPlaybackState transcodeParams]\<rparr>
   \<and> lastTranscoderPing
        (reportPlaybackProgress initialPlaybackState transcodeParams True ''playbackprogress'' 7000 newWorld)
       = 7000
   \<and> timers
        (reportPlaybackProgress initialPlaybackState transcodeParams True ''playbackprogress'' 7000 newWorld)
       = [(1, transcodeParams)]
   \<and> newEffects newWorld
        (reportPlaybackProgress initialPlaybackState transcodeParams True ''playbackprogress'' 7000 newWorld)
       = [BroadcastToMessageBus ''playbackprogress'' initialPlaybackState transcodeParams,
          ClearInterval Undefined, SetInterval 1 transcodeParams 1000,
          AuthAjax ''Sessions/Playing/Progress'' (ReportBody transcodeParams)]"
  using reportPlaybackProgress_broadcasts_then_reports
          [of newWorld initialPlaybackState transcodeParams False "''playbackprogress''" 7000]
        reportPlaybackProgress_broadcasts_then_reports
          [of newWorld initialPlaybackState transcodeParams True "''playbackprogress''" 7000]
  by (simp add: newWorld_def transcodeParams_def restartPingInterval_def stopPingInterval_def
        clearInterval_def setInterval_def emit_def Let_def)

subsection \<open>The invariant of the timer\<close>

lemma fresh_timerInv: "fresh w \<Longrightarrow> timerInv w"
  by (simp add: fresh_def timerInv_def)

lemma stopPingInterval_fields [simp]:
  "nextTimerId (stopPingInterval w) = nextTimerId w"
  "lastTranscoderPing (stopPingInterval w) = lastTranscoderPing w"
  "playbackState (stopPingInterval w) = playbackState w"
  "activePlaylist (stopPingInterval w) = activePlaylist w"
  "activePlaylistIndex (stopPingInterval w) = activePlaylistIndex w"
  "trace (stopPingInterval w) =
     trace w @ (if pingInterval w \<noteq> Num 0 then [ClearInterval (pingInterval w)] else [])"
  by (simp_all add: stopPingInterval_def clearInterval_def emit_def)

lemma stopPingInterval_cancels:
  "timerInv w \<Longrightarrow> timers (stopPingInterval w) = [] \<and> pingInterval (stopPingInterval w) = Num 0"
  by (cases "timers w") (auto simp: timerInv_def stopPingInterval_def clearInterval_def emit_def)

lemma stopPingInterval_idem:
  "pingInterval w = Num 0 \<Longrightarrow> stopPingInterval w = w"
  by (simp add: stopPingInterval_def)

lemma timerInv_stopPingInterval: "timerInv w \<Longrightarrow> timerInv (stopPingInterval w)"
  using stopPingInterval_cancels[of w] by (simp add: timerInv_def)

lemma timerInv_emit [simp]: "timerInv (emit e w) = timerInv w"
  by (simp add: timerInv_def emit_def)

lemma emit_fields [simp]:
  "timers (emit e w) = timers w" "pingInterval (emit e w) = pingInterval w"
  "nextTimerId (emit e w) = nextTimerId w" "lastTranscoderPing (emit e w) = lastTranscoderPing w"
  "playbackState (emit e w) = playbackState w" "trace (emit e w) = trace w @ [e]"
  "activePlaylist (emit e w) = activePlaylist w"
  "activePlaylistIndex (emit e w) = activePlaylistIndex w"
  by (simp_all add: emit_def)

lemma restartPingInterval_timers:
  "timerInv w \<Longrightarrow>
     timers (restartPingInterval p w)
       = (if PlayMethod p = Some Transcode then [(nextTimerId w, p)] else [])
     \<and> pingInterval (restartPingInterval p w)
       = (if PlayMethod p = Some Transcode then Num (nextTimerId w) else Num 0)
     \<and> nextTimerId (restartPingInterval p w)
       = (if PlayMethod p = Some Transcode then Suc (nextTimerId w) else nextTimerId w)"
  using stopPingInterval_cancels[of w]
  by (simp add: restartPingInterval_def setInterval_def Let_def)

lemma restartPingInterval_fields [simp]:
  "lastTranscoderPing (restartPingInterval p w) = lastTranscoderPing w"
  "playbackState (restartPingInterval p w) = playbackState w"
  "trace (restartPingInterval p w) =
     trace w @ (if pingInterval w \<noteq> Num 0 then [ClearInterval (pingInterval w)] else [])
       @ (if PlayMethod p = Some Transcode then [SetInterval (nextTimerId w) p 1000] else [])"
  by (simp_all add: restartPingInterval_def setInterval_def Let_def)

lemma timerInv_restartPingInterval: "timerInv w \<Longrightarrow> timerInv (restartPingInterval p w)"
  using restartPingInterval_timers[of w p] by (simp add: timerInv_def)


lemma setState_fields [simp]:
  "timers (setState f w) = timers w" "pingInterval (setState f w) = pingInterval w"
  "nextTimerId (setState f w) = nextTimerId w"
  "lastTranscoderPing (setState f w) = lastTranscoderPing w"
  "playbackState (setState f w) = f (playbackState w)" "trace (setState f w) = trace w"
  "activePlaylist (setState f w) = activePlaylist w"
  "activePlaylistIndex (setState f w) = activePlaylistIndex w"
  by (simp_all add: setState_def)

lemma timerInv_setState [simp]: "timerInv (setState f w) = timerInv w"
  by (simp add: timerInv_def)

lemma reportPlaybackStart_timers:
  "timerInv w \<Longrightarrow>
     timers (reportPlaybackStart st p w)
       = (if PlayMethod p = Some Transcode then [(nextTimerId w, p)] else [])
     \<and> timerInv (reportPlaybackStart st p w)
     \<and> lastTranscoderPing (reportPlaybackStart st p w) = lastTranscoderPing w"
  using restartPingInterval_timers
          [of "emit (BroadcastToMessageBus ''playbackstart'' st p) (emit ClearBackdropInterval w)" p]
        timerInv_restartPingInterval
          [of "emit (BroadcastToMessageBus ''playbackstart'' st p) (emit ClearBackdropInterval w)" p]
  by (simp add: reportPlaybackStart_def Let_def)

lemma reportPlaybackProgress_timers:
  "timerInv w \<Longrightarrow>
     timers (reportPlaybackProgress st p b name now w)
       = (if b then (if PlayMethod p = Some Transcode then [(nextTimerId w, p)] else [])
          else timers w)
     \<and> timerInv (reportPlaybackProgress st p b name now w)
     \<and> lastTranscoderPing (reportPlaybackProgress st p b name now w)
         = (if b then now else lastTranscoderPing w)"
  using restartPingInterval_timers[of "emit (BroadcastToMessageBus name st p) w" p]
        timerInv_restartPingInterval[of "emit (BroadcastToMessageBus name st p) w" p]
  by (simp add: reportPlaybackProgress_def Let_def timerInv_def)

lemma reportPlaybackStopped_timers:
  "timerInv w \<Longrightarrow>
     timers (reportPlaybackStopped st p w) = []
     \<and> pingInterval (reportPlaybackStopped st p w) = Num 0
     \<and> timerInv (reportPlaybackStopped st p w)
     \<and> lastTranscoderPing (reportPlaybackStopped st p w) = lastTranscoderPing w"
  using stopPingInterval_cancels[of w] timerInv_stopPingInterval[of w]
  by (simp add: reportPlaybackStopped_def Let_def)

lemma reportPlaybackStopped_trace:
  "trace (reportPlaybackStopped st p w) =
     trace w @ (if pingInterval w \<noteq> Num 0 then [ClearInterval (pingInterval w)] else [])
       @ [BroadcastToMessageBus ''playbackstop'' st p,
          AuthAjax ''Sessions/Playing/Stopped'' (ReportBody p)]"
  by (simp add: reportPlaybackStopped_def Let_def)

lemma pingTranscoder_fields [simp]:
  "timers (pingTranscoder p now now2 w) = timers w"
  "pingInterval (pingTranscoder p now now2 w) = pingInterval w"
  "nextTimerId (pingTranscoder p now now2 w) = nextTimerId w"
  by (simp_all add: pingTranscoder_def)

lemma tick_fields [simp]:
  "timers (tick i now now2 w) = timers w"
  "pingInterval (tick i now now2 w) = pingInterval w"
  "nextTimerId (tick i now now2 w) = nextTimerId w"
  by (simp_all add: tick_def split: option.splits)

lemma timerInv_tick [simp]: "timerInv (tick i now now2 w) = timerInv w"
  by (simp add: timerInv_def)

text \<open>The negotiation and the load leave the reporter's variables and the playlist alone.\<close>

lemma resetPlaybackScope_fields [simp]:
  "timers (resetPlaybackScope w) = timers w"
  "pingInterval (resetPlaybackScope w) = pingInterval w"
  "nextTimerId (resetPlaybackScope w) = nextTimerId w"
  "lastTranscoderPing (resetPlaybackScope w) = lastTranscoderPing w"
  "activePlaylist (resetPlaybackScope w) = activePlaylist w"
  "activePlaylistIndex (resetPlaybackScope w) = activePlaylistIndex w"
  "trace (resetPlaybackScope w)
     = trace w @ [SetAppStatus ''waiting'', SetWaitingBackdrop, SetLogo, SetDetailImage]"
  by (simp_all add: resetPlaybackScope_def Let_def)

lemma load_fields [simp]:
  "timers (load cd i w) = timers w"
  "pingInterval (load cd i w) = pingInterval w"
  "nextTimerId (load cd i w) = nextTimerId w"
  "lastTranscoderPing (load cd i w) = lastTranscoderPing w"
  "activePlaylist (load cd i w) = activePlaylist w"
  "activePlaylistIndex (load cd i w) = activePlaylistIndex w"
  "trace (load cd i w)
     = trace w @ [SetAppStatus ''waiting'', SetWaitingBackdrop, SetLogo, SetDetailImage,
                  SetAppStatus ''backdrop'']"
  by (simp_all add: load_def Let_def)

lemma playMediaSource_fields [simp]:
  "timers (playMediaSource env sid i ms opts w) = timers w"
  "pingInterval (playMediaSource env sid i ms opts w) = pingInterval w"
  "nextTimerId (playMediaSource env sid i ms opts w) = nextTimerId w"
  "lastTranscoderPing (playMediaSource env sid i ms opts w) = lastTranscoderPing w"
  "activePlaylist (playMediaSource env sid i ms opts w) = activePlaylist w"
  "activePlaylistIndex (playMediaSource env sid i ms opts w) = activePlaylistIndex w"
  "mediaSource (playbackState (playMediaSource env sid i ms opts w)) = Some ms"
  "PlaybackMediaSource (playbackState (playMediaSource env sid i ms opts w)) = Some ms"
  by (simp_all add: playMediaSource_def Let_def)

lemma playMediaSource_trace:
  "trace (playMediaSource env sid i ms opts w) =
     trace w @
     [SetAppStatus ''loading'',
      SetAppStatus ''waiting'', SetWaitingBackdrop, SetLogo, SetDetailImage,
      SetAppStatus ''backdrop'',
      PlayerManagerLoad
        (createMediaInformation env sid i (createStreamInfo env i ms (opt_startPositionTicks opts)))
        True
        (if cd_startPositionTicks
              (createMediaInformation env sid i
                 (createStreamInfo env i ms (opt_startPositionTicks opts))) > 0
         then Some (cd_startPositionTicks
                (createMediaInformation env sid i
                   (createStreamInfo env i ms (opt_startPositionTicks opts))))
         else None),
      ConsoleLog (''setting src to '' @ url (createStreamInfo env i ms (opt_startPositionTicks opts))),
      SetPlayerBackdrop i,
      PlayerManagerSetMediaInformation
        (createMediaInformation env sid i (createStreamInfo env i ms (opt_startPositionTicks opts)))
        False]"
  by (simp add: playMediaSource_def Let_def)

lemma getPlaybackInfo_fields [simp]:
  "timers (getPlaybackInfo env i mb dp sp msid a s l w) = timers w"
  "pingInterval (getPlaybackInfo env i mb dp sp msid a s l w) = pingInterval w"
  "nextTimerId (getPlaybackInfo env i mb dp sp msid a s l w) = nextTimerId w"
  "lastTranscoderPing (getPlaybackInfo env i mb dp sp msid a s l w) = lastTranscoderPing w"
  "activePlaylist (getPlaybackInfo env i mb dp sp msid a s l w) = activePlaylist w"
  "activePlaylistIndex (getPlaybackInfo env i mb dp sp msid a s l w) = activePlaylistIndex w"
  "playbackState (getPlaybackInfo env i mb dp sp msid a s l w) = playbackState w"
  by (simp_all add: getPlaybackInfo_def Let_def)

lemma getLiveStream_fields [simp]:
  "timers (getLiveStream env i sid mb dp sp ms a s w) = timers w"
  "pingInterval (getLiveStream env i sid mb dp sp ms a s w) = pingInterval w"
  "nextTimerId (getLiveStream env i sid mb dp sp ms a s w) = nextTimerId w"
  "lastTranscoderPing (getLiveStream env i sid mb dp sp ms a s w) = lastTranscoderPing w"
  "activePlaylist (getLiveStream env i sid mb dp sp ms a s w) = activePlaylist w"
  "activePlaylistIndex (getLiveStream env i sid mb dp sp ms a s w) = activePlaylistIndex w"
  "playbackState (getLiveStream env i sid mb dp sp ms a s w) = playbackState w"
  by (simp_all add: getLiveStream_def Let_def)

lemma playItemInternal_fields [simp]:
  "timers (snd (playItemInternal env i opts w)) = timers w"
  "pingInterval (snd (playItemInternal env i opts w)) = pingInterval w"
  "nextTimerId (snd (playItemInternal env i opts w)) = nextTimerId w"
  "lastTranscoderPing (snd (playItemInternal env i opts w)) = lastTranscoderPing w"
  "activePlaylist (snd (playItemInternal env i opts w)) = activePlaylist w"
  "activePlaylistIndex (snd (playItemInternal env i opts w)) = activePlaylistIndex w"
  by (simp_all add: playItemInternal_def Let_def split: option.splits sum.splits prod.splits)

lemma stop_timers:
  "timerInv w \<Longrightarrow>
     timers (stop c w) = [] \<and> pingInterval (stop c w) = Num 0 \<and> timerInv (stop c w)
     \<and> lastTranscoderPing (stop c w) = lastTranscoderPing w"
proof -
  assume inv: "timerInv w"
  let ?w1 = "setState (\<lambda>s. s\<lparr>playNextItemBool := c\<rparr>) w"
  let ?w2 = "jellyfinActions_stop ?w1"
  have 2: "timers ?w2 = [] \<and> pingInterval ?w2 = Num 0 \<and> timerInv ?w2
           \<and> lastTranscoderPing ?w2 = lastTranscoderPing w"
    using reportPlaybackStopped_timers
            [of ?w1 "playbackState ?w1" "getReportingParams (playbackState ?w1)"] inv
    by (simp add: jellyfinActions_stop_def)
  then have 3: "stopPingInterval ?w2 = ?w2" by (simp add: stopPingInterval_idem)
  show ?thesis using 2 by (simp add: stop_def Let_def 3 timerInv_def)
qed

lemma step_timers:
  "timerInv w \<Longrightarrow>
     timerInv (step x w)
     \<and> timerLive (step x w) = (case declares x of None \<Rightarrow> timerLive w | Some b \<Rightarrow> b)"
proof (cases x)
  case (ReportStart p)
  assume "timerInv w"
  then show ?thesis using reportPlaybackStart_timers[of w "playbackState w" p]
    by (simp add: ReportStart timerLive_def)
next
  case (ReportProgress p b name now)
  assume "timerInv w"
  then show ?thesis using reportPlaybackProgress_timers[of w "playbackState w" p b name now]
    by (simp add: ReportProgress timerLive_def)
next
  case (ReportStop p)
  assume "timerInv w"
  then show ?thesis using reportPlaybackStopped_timers[of w "playbackState w" p]
    by (simp add: ReportStop timerLive_def)
next
  case (Tick i now now2 ok)
  assume "timerInv w"
  then show ?thesis by (simp add: Tick timerLive_def)
next
  case StopPingInterval
  assume "timerInv w"
  then show ?thesis using stopPingInterval_cancels[of w] timerInv_stopPingInterval[of w]
    by (simp add: StopPingInterval timerLive_def)
next
  case (ManagerStop c)
  assume "timerInv w"
  then show ?thesis using stop_timers[of w c] by (simp add: ManagerStop timerLive_def)
next
  case (PlayItem env i opts stopPlayer)
  assume "timerInv w"
  then show ?thesis using stop_timers[of w True]
    by (simp add: PlayItem timerLive_def timerInv_def playItem_def
          onStopPlayerBeforePlaybackDone_def)
qed

lemma run_timerInv: "timerInv w \<Longrightarrow> timerInv (run xs w)"
  by (induction xs arbitrary: w) (simp_all add: step_timers)

lemma run_append: "run (xs @ ys) w = run ys (run xs w)"
  by (induction xs arbitrary: w) simp_all

lemma lastDeclared_snoc:
  "lastDeclared f (xs @ [x]) = (case f x of None \<Rightarrow> lastDeclared f xs | Some b \<Rightarrow> b)"
  by (simp add: lastDeclared_def List.map_filter_def split: option.splits)

lemma run_timerLive:
  "fresh w \<Longrightarrow> timerLive (run xs w) = lastDeclared declares xs"
proof (induction xs rule: rev_induct)
  case Nil
  then show ?case by (simp add: fresh_def timerLive_def lastDeclared_def List.map_filter_def)
next
  case (snoc x xs)
  have "timerInv (run xs w)" using snoc.prems by (simp add: run_timerInv fresh_timerInv)
  then show ?case using step_timers[of "run xs w" x] snoc
    by (simp add: run_append lastDeclared_snoc split: option.splits)
qed


text \<open>
  C2, as the reporter has it. From the freshly loaded module, after any run of calls the
  interval is live exactly when the last call that says anything about the timer
  declared a transcode, where a progress report with \<open>reportToServer\<close> false says
  nothing (it leaves the timer as it is) and every stop says no. The invariant holds (at
  most one interval, the one \<^verbatim>\<open>pingInterval\<close> names);
  \<^verbatim>\<open>reportPlaybackStopped\<close> and the manager's \<^verbatim>\<open>stop\<close> leave no interval;
  \<^verbatim>\<open>restartPingInterval\<close> clears before it sets, and leaves only the new interval.
\<close>

theorem keepalive_timer_follows_last_server_report:
  "fresh w \<Longrightarrow>
     timerLive (run xs w) = lastDeclared declares xs
     \<and> timerInv (run xs w)
     \<and> length (timers (run xs w)) \<le> 1
     \<and> timers (reportPlaybackStopped st p (run xs w)) = []
     \<and> timers (stop c (run xs w)) = []
     \<and> newEffects (run xs w) (restartPingInterval p (run xs w))
         = (if pingInterval (run xs w) \<noteq> Num 0 then [ClearInterval (pingInterval (run xs w))] else [])
           @ (if PlayMethod p = Some Transcode then [SetInterval (nextTimerId (run xs w)) p 1000] else [])
     \<and> timers (restartPingInterval p (run xs w))
         = (if PlayMethod p = Some Transcode then [(nextTimerId (run xs w), p)] else [])"
proof -
  assume f: "fresh w"
  then have inv: "timerInv (run xs w)" by (simp add: run_timerInv fresh_timerInv)
  have len: "length (timers (run xs w)) \<le> 1" using inv by (simp add: timerInv_def)
  show ?thesis
    using run_timerLive[OF f, of xs] inv len
      reportPlaybackStopped_timers[OF inv, of st p] stop_timers[OF inv, of c]
      restartPingInterval_timers[OF inv, of p]
    by (simp add: newEffects_def)
qed

theorem keepalive_timer_witness:
  "fresh newWorld
   \<and> timerLive (run [ReportStart directParams,
                      ReportProgress transcodeParams True ''playbackprogress'' 100] newWorld)
   \<and> \<not> timerLive (run [ReportStart transcodeParams, ReportStop transcodeParams] newWorld)
   \<and> timers (restartPingInterval transcodeParams (run [ReportStart transcodeParams] newWorld))
       = [(2, transcodeParams)]"
  using keepalive_timer_follows_last_server_report
          [of newWorld "[ReportStart directParams,
                         ReportProgress transcodeParams True ''playbackprogress'' 100]"]
        keepalive_timer_follows_last_server_report
          [of newWorld "[ReportStart transcodeParams, ReportStop transcodeParams]"]
        keepalive_timer_follows_last_server_report
          [of newWorld "[ReportStart transcodeParams]" initialPlaybackState transcodeParams True]
  by (simp add: fresh_def newWorld_def lastDeclared_def List.map_filter_simps transcodeParams_def
        directParams_def reportPlaybackStart_def restartPingInterval_def stopPingInterval_def
        clearInterval_def setInterval_def emit_def Let_def)

text \<open>
  C2 as stated counts every progress report as the most recent declaration. A progress
  report that is not sent to the server does not touch the timer: as a first call with
  a transcode it leaves no interval, and after a transcode start it leaves the interval
  live although it carries a direct play.
\<close>

theorem local_progress_leaves_timer_counterexample:
  "fresh newWorld
   \<and> lastDeclared declaresAsStated [ReportProgress transcodeParams False ''playbackprogress'' 0]
   \<and> \<not> timerLive (run [ReportProgress transcodeParams False ''playbackprogress'' 0] newWorld)
   \<and> \<not> lastDeclared declaresAsStated
          [ReportStart transcodeParams, ReportProgress directParams False ''playbackprogress'' 0]
   \<and> timerLive (run [ReportStart transcodeParams,
                      ReportProgress directParams False ''playbackprogress'' 0] newWorld)"
  by (simp add: fresh_def newWorld_def lastDeclared_def List.map_filter_simps transcodeParams_def
        directParams_def reportPlaybackStart_def reportPlaybackProgress_def timerLive_def
        restartPingInterval_def stopPingInterval_def
        clearInterval_def setInterval_def emit_def Let_def)

subsection \<open>The stop report\<close>

lemma tick_without_timer: "timers w = [] \<Longrightarrow> tick i now now2 w = w"
  by (simp add: tick_def)

lemma run_ticks_without_timer:
  "timers w = [] \<Longrightarrow> list_all isTick ts \<Longrightarrow> run ts w = w"
proof (induction ts)
  case Nil
  then show ?case by simp
next
  case (Cons x ts)
  then obtain i now now2 ok where x: "x = Tick i now now2 ok" by (cases x) simp_all
  show ?case using Cons by (simp add: x tick_without_timer)
qed

text \<open>
  C5. In any state reached from the freshly loaded module, \<^verbatim>\<open>reportPlaybackStopped\<close>
  adds to the trace, in this order, the clearing of the interval (always when one is
  live), the broadcast of \<^verbatim>\<open>playbackstop\<close> and the post of the stop. It leaves no
  interval, so no tick that follows the stop report runs a callback: ticks leave the
  state and the trace as they are, until a later report sets a new interval.
\<close>

theorem reportPlaybackStopped_cancels_broadcasts_posts:
  "fresh w0 \<Longrightarrow>
     newEffects (run xs w0) (reportPlaybackStopped st p (run xs w0))
       = (if pingInterval (run xs w0) \<noteq> Num 0
          then [ClearInterval (pingInterval (run xs w0))] else [])
         @ [BroadcastToMessageBus ''playbackstop'' st p,
            AuthAjax ''Sessions/Playing/Stopped'' (ReportBody p)]
     \<and> (timerLive (run xs w0) \<longrightarrow> pingInterval (run xs w0) \<noteq> Num 0)
     \<and> timers (reportPlaybackStopped st p (run xs w0)) = []
     \<and> pingInterval (reportPlaybackStopped st p (run xs w0)) = Num 0
     \<and> (list_all isTick ts \<longrightarrow>
          run ts (reportPlaybackStopped st p (run xs w0)) = reportPlaybackStopped st p (run xs w0))"
proof -
  assume f: "fresh w0"
  then have inv: "timerInv (run xs w0)" by (simp add: run_timerInv fresh_timerInv)
  have live: "timerLive (run xs w0) \<longrightarrow> pingInterval (run xs w0) \<noteq> Num 0"
    using inv by (cases "timers (run xs w0)") (auto simp: timerInv_def timerLive_def)
  have none: "timers (reportPlaybackStopped st p (run xs w0)) = []"
    using reportPlaybackStopped_timers[OF inv, of st p] by simp
  show ?thesis
    using reportPlaybackStopped_timers[OF inv, of st p] live
      run_ticks_without_timer[OF none, of ts]
    by (simp add: newEffects_def reportPlaybackStopped_trace)
qed

theorem reportPlaybackStopped_witness:
  "fresh newWorld
   \<and> newEffects (run [ReportStart transcodeParams] newWorld)
        (reportPlaybackStopped initialPlaybackState transcodeParams
           (run [ReportStart transcodeParams] newWorld))
       = [ClearInterval (Num 1),
          BroadcastToMessageBus ''playbackstop'' initialPlaybackState transcodeParams,
          AuthAjax ''Sessions/Playing/Stopped'' (ReportBody transcodeParams)]
   \<and> timerLive (run [ReportStart transcodeParams] newWorld)
   \<and> list_all isTick [Tick 1 9000 9000 True, Tick 1 10000 10000 True]
   \<and> filter isPing
        (trace (run [Tick 1 9000 9000 True, Tick 1 10000 10000 True]
                 (reportPlaybackStopped initialPlaybackState transcodeParams
                    (run [ReportStart transcodeParams] newWorld)))) = []"
  using reportPlaybackStopped_cancels_broadcasts_posts
          [of newWorld "[ReportStart transcodeParams]" initialPlaybackState transcodeParams
              "[Tick 1 9000 9000 True, Tick 1 10000 10000 True]"]
  by (simp add: fresh_def newWorld_def transcodeParams_def timerLive_def
        reportPlaybackStart_def reportPlaybackStopped_def restartPingInterval_def
        stopPingInterval_def clearInterval_def setInterval_def emit_def Let_def)

subsection \<open>Coalescing of pings\<close>

lemma pingTranscoder_effects:
  "newEffects w (pingTranscoder p now now2 w) =
     (if now - lastTranscoderPing w < 5000
      then [ConsoleDebug ''Skipping ping due to recent progress check-in'']
      else [AuthAjax (''Sessions/Playing/Ping?playSessionId='' @ PlaySessionId p)
              (PingBody (PlaySessionId p))])"
  by (simp add: pingTranscoder_def newEffects_def emit_def)

lemma pingTranscoder_last:
  "lastTranscoderPing (pingTranscoder p now now2 w) =
     (if now - lastTranscoderPing w < 5000 then lastTranscoderPing w else now2)"
  by (simp add: pingTranscoder_def emit_def)

lemma tick_effects:
  "newEffects w (tick i now now2 w) =
     (case map_of (timers w) i of
        None \<Rightarrow> []
      | Some p \<Rightarrow> newEffects w (pingTranscoder p now now2 w))"
  by (simp add: tick_def newEffects_def split: option.splits)

lemma tick_last:
  "lastTranscoderPing (tick i now now2 w) =
     (case map_of (timers w) i of
        None \<Rightarrow> lastTranscoderPing w
      | Some p \<Rightarrow> if now - lastTranscoderPing w < 5000 then lastTranscoderPing w else now2)"
  by (simp add: tick_def pingTranscoder_last split: option.splits)

text \<open>
  C3. A call of \<^verbatim>\<open>pingTranscoder\<close>, which is what a tick of the live interval runs,
  issues a request, the ping, exactly when at least 5000 ms lie between the clock and
  the timestamp of the last ping; the timestamp is set by a progress report that is
  sent to the server and by a ping that is issued, and by nothing else. In the scenario,
  with progress reported at \<open>t\<close> and three seconds later and the first report the last
  event that has set the timestamp, the tick one second after \<open>t\<close> issues no request
  and the tick six seconds after \<open>t\<close> issues the ping; the claim has \<open>t = 0\<close>.
\<close>

theorem pingTranscoder_fires_after_five_seconds:
  "(filter isRequest (newEffects w (pingTranscoder p now now2 w)) \<noteq> []
      \<longleftrightarrow> 5000 \<le> now - lastTranscoderPing w)
   \<and> filter isRequest (newEffects w (pingTranscoder p now now2 w))
       = filter isPing (newEffects w (pingTranscoder p now now2 w))
   \<and> (map_of (timers w) i = Some p \<longrightarrow> tick i now now2 w = pingTranscoder p now now2 w)
   \<and> lastTranscoderPing (reportPlaybackProgress st p True name now w) = now
   \<and> lastTranscoderPing (reportPlaybackProgress st p False name now w) = lastTranscoderPing w
   \<and> lastTranscoderPing (reportPlaybackStart st p w) = lastTranscoderPing w
   \<and> lastTranscoderPing (reportPlaybackStopped st p w) = lastTranscoderPing w
   \<and> lastTranscoderPing (pingTranscoder p now now2 w)
       = (if 5000 \<le> now - lastTranscoderPing w then now2 else lastTranscoderPing w)
   \<and> timers (run (coalescingScenario t) newWorld) = [(1, transcodeParams)]
   \<and> lastTranscoderPing (run (coalescingScenario t) newWorld) = t
   \<and> newEffects (run (take 1 (coalescingScenario t)) newWorld)
        (run (take 2 (coalescingScenario t)) newWorld)
       = [ConsoleDebug ''Skipping ping due to recent progress check-in'']
   \<and> newEffects (run (coalescingScenario t) newWorld)
        (tick 1 (t + 6000) (t + 6000) (run (coalescingScenario t) newWorld))
       = [AuthAjax ''Sessions/Playing/Ping?playSessionId=session-a'' (PingBody ''session-a'')]"
  by (simp add: pingTranscoder_effects pingTranscoder_last tick_effects
        coalescingScenario_def newWorld_def transcodeParams_def
        reportPlaybackStart_def reportPlaybackProgress_def reportPlaybackStopped_def
        restartPingInterval_def stopPingInterval_def clearInterval_def setInterval_def
        emit_def tick_def pingTranscoder_def newEffects_def Let_def)

theorem pingTranscoder_witness:
  "filter isRequest (newEffects newWorld (pingTranscoder transcodeParams 5000 5001 newWorld))
     = [AuthAjax ''Sessions/Playing/Ping?playSessionId=session-a'' (PingBody ''session-a'')]
   \<and> filter isRequest (newEffects newWorld (pingTranscoder transcodeParams 4999 4999 newWorld)) = []
   \<and> lastTranscoderPing (pingTranscoder transcodeParams 5000 5001 newWorld) = 5001
   \<and> map_of (timers (run (coalescingScenario 0) newWorld)) 1 = Some transcodeParams
   \<and> lastTranscoderPing (run (coalescingScenario 0) newWorld) = 0
   \<and> filter isRequest
        (newEffects (run (take 1 (coalescingScenario 0)) newWorld)
           (step (Tick 1 1000 1000 True) (run (take 1 (coalescingScenario 0)) newWorld))) = []
   \<and> filter isRequest
        (newEffects (run (coalescingScenario 0) newWorld)
           (step (Tick 1 6000 6000 True) (run (coalescingScenario 0) newWorld)))
       = [AuthAjax ''Sessions/Playing/Ping?playSessionId=session-a'' (PingBody ''session-a'')]"
  using pingTranscoder_fires_after_five_seconds
          [of newWorld transcodeParams 5000 5001 1 initialPlaybackState "''playbackprogress''" 0]
        pingTranscoder_fires_after_five_seconds
          [of newWorld transcodeParams 4999 4999 1 initialPlaybackState "''playbackprogress''" 0]
        pingTranscoder_fires_after_five_seconds
          [of "run (coalescingScenario 0) newWorld" transcodeParams 6000 6000 1
              initialPlaybackState "''playbackprogress''" 0]
  by (simp add: pingTranscoder_effects tick_effects coalescingScenario_def newWorld_def
        transcodeParams_def reportPlaybackProgress_def restartPingInterval_def
        stopPingInterval_def clearInterval_def setInterval_def emit_def tick_def
        pingTranscoder_def newEffects_def Let_def)

text \<open>
  When the report three seconds after \<open>t\<close> goes to the server too, it sets the
  timestamp: the tick six seconds after \<open>t\<close> is suppressed, and the tick eight seconds
  after \<open>t\<close> issues the ping.
\<close>

lemma server_report_defers_ping:
  "timers (run (serverReportScenario t) newWorld) = [(2, transcodeParams)]
   \<and> lastTranscoderPing (run (serverReportScenario t) newWorld) = t + 3000
   \<and> newEffects (run (serverReportScenario t) newWorld)
        (tick 2 (t + 6000) (t + 6000) (run (serverReportScenario t) newWorld))
       = [ConsoleDebug ''Skipping ping due to recent progress check-in'']
   \<and> newEffects (run (serverReportScenario t) newWorld)
        (tick 2 (t + 8000) (t + 8000) (run (serverReportScenario t) newWorld))
       = [AuthAjax ''Sessions/Playing/Ping?playSessionId=session-a'' (PingBody ''session-a'')]"
  by (simp add: serverReportScenario_def newWorld_def transcodeParams_def
        reportPlaybackProgress_def restartPingInterval_def stopPingInterval_def
        clearInterval_def setInterval_def emit_def tick_def pingTranscoder_def
        newEffects_def Let_def)

lemma stop_last [simp]: "lastTranscoderPing (stop c w) = lastTranscoderPing w"
  by (simp add: stop_def jellyfinActions_stop_def reportPlaybackStopped_def Let_def)

lemma reportPlaybackStart_last [simp]:
  "lastTranscoderPing (reportPlaybackStart st p w) = lastTranscoderPing w"
  by (simp add: reportPlaybackStart_def Let_def)

lemma reportPlaybackStopped_last [simp]:
  "lastTranscoderPing (reportPlaybackStopped st p w) = lastTranscoderPing w"
  by (simp add: reportPlaybackStopped_def Let_def)

lemma reportPlaybackProgress_last [simp]:
  "lastTranscoderPing (reportPlaybackProgress st p b name now w)
     = (if b then now else lastTranscoderPing w)"
  by (simp add: reportPlaybackProgress_def Let_def)

lemma playItem_last [simp]:
  "lastTranscoderPing (snd (playItem env i opts stopPlayer w)) = lastTranscoderPing w"
  by (cases stopPlayer) (simp_all add: playItem_def onStopPlayerBeforePlaybackDone_def)

lemma tick_pings:
  "filter isPing (newEffects w (tick i now now2 w)) \<noteq> [] \<Longrightarrow>
     5000 \<le> now - lastTranscoderPing w \<and> lastTranscoderPing (tick i now now2 w) = now2"
  by (auto simp: tick_effects tick_last pingTranscoder_effects split: option.splits if_splits)

lemma tick_last_le:
  "lastTranscoderPing w \<le> now \<Longrightarrow> now \<le> now2 \<Longrightarrow> lastTranscoderPing (tick i now now2 w) \<le> now2"
  by (auto simp: tick_last split: option.splits)

lemma tick_last_ge:
  "lastTranscoderPing w \<le> now \<Longrightarrow> now \<le> now2 \<Longrightarrow>
     lastTranscoderPing w \<le> lastTranscoderPing (tick i now now2 w)"
  by (auto simp: tick_last split: option.splits)

lemma pingTimes_spaced:
  "lastTranscoderPing w \<le> t0 \<Longrightarrow> sorted (t0 # clockReadings xs) \<Longrightarrow>
     sorted_wrt (\<lambda>a b. a + 5000 \<le> b) (pingTimes xs w)
     \<and> (\<forall>t \<in> set (pingTimes xs w). lastTranscoderPing w + 5000 \<le> t)"
proof (induction xs arbitrary: w t0)
  case Nil
  then show ?case by simp
next
  case (Cons x xs)
  show ?case
  proof (cases x)
    case (ReportStart p)
    then show ?thesis using Cons.IH[of "step x w" t0] Cons.prems by simp
  next
    case (ReportProgress p b name now)
    show ?thesis
    proof (cases b)
      case True
      have le: "lastTranscoderPing (step x w) \<le> now"
        "lastTranscoderPing w \<le> lastTranscoderPing (step x w)"
        using Cons.prems by (auto simp: ReportProgress True)
      have "sorted (now # clockReadings xs)" using Cons.prems by (simp add: ReportProgress True)
      from Cons.IH[OF le(1) this] le(2) show ?thesis by (auto simp: ReportProgress)
    next
      case False
      then show ?thesis using Cons.IH[of "step x w" t0] Cons.prems by (simp add: ReportProgress)
    qed
  next
    case (ReportStop p)
    then show ?thesis using Cons.IH[of "step x w" t0] Cons.prems by simp
  next
    case (Tick i now now2 ok)
    have ord: "lastTranscoderPing w \<le> now" "now \<le> now2" "sorted (now2 # clockReadings xs)"
      using Cons.prems by (auto simp: Tick)
    have le: "lastTranscoderPing (tick i now now2 w) \<le> now2"
      using tick_last_le[OF ord(1,2)] .
    have ge: "lastTranscoderPing w \<le> lastTranscoderPing (tick i now now2 w)"
      using tick_last_ge[OF ord(1,2)] .
    note IH = Cons.IH[OF le ord(3)]
    show ?thesis
    proof (cases "filter isPing (newEffects w (tick i now now2 w)) = []")
      case True
      then show ?thesis using IH ge by (auto simp: Tick)
    next
      case False
      from tick_pings[OF False] have "5000 \<le> now - lastTranscoderPing w"
        and "lastTranscoderPing (tick i now now2 w) = now2" by simp_all
      then show ?thesis using IH ord False by (auto simp: Tick)
    qed
  next
    case StopPingInterval
    then show ?thesis using Cons.IH[of "step x w" t0] Cons.prems by simp
  next
    case (ManagerStop c)
    then show ?thesis using Cons.IH[of "step x w" t0] Cons.prems by simp
  next
    case (PlayItem env i opts stopPlayer)
    then show ?thesis using Cons.IH[of "step x w" t0] Cons.prems by simp
  qed
qed


text \<open>
  C9. A call of \<^verbatim>\<open>pingTranscoder\<close> that is due stores the second clock reading as
  the timestamp and then issues the request; a suppressed call issues no request and
  leaves the timestamp. The outcome of the request changes nothing. So in every run from
  the freshly loaded module whose clock readings are not negative and never decrease,
  any two pings that the ticks issue, whether the requests succeed or fail, are at least
  5000 ms apart.
\<close>

theorem pings_at_least_five_seconds_apart:
  "(5000 \<le> now - lastTranscoderPing w \<longrightarrow>
      pingTranscoder p now now2 w
        = emit (AuthAjax (''Sessions/Playing/Ping?playSessionId='' @ PlaySessionId p)
                  (PingBody (PlaySessionId p)))
            (w\<lparr>lastTranscoderPing := now2\<rparr>))
   \<and> (now - lastTranscoderPing w < 5000 \<longrightarrow>
        lastTranscoderPing (pingTranscoder p now now2 w) = lastTranscoderPing w
        \<and> filter isRequest (newEffects w (pingTranscoder p now now2 w)) = [])
   \<and> step (Tick i now now2 False) w = step (Tick i now now2 True) w
   \<and> (fresh w \<and> sorted (0 # clockReadings xs) \<longrightarrow>
        sorted_wrt (\<lambda>a b. a + 5000 \<le> b) (pingTimes xs w))"
proof -
  have "sorted_wrt (\<lambda>a b. a + 5000 \<le> b) (pingTimes xs w)"
    if "fresh w" "sorted (0 # clockReadings xs)"
    using pingTimes_spaced[of w 0 xs] that by (simp add: fresh_def)
  then show ?thesis
    by (simp add: pingTranscoder_effects pingTranscoder_last) (simp add: pingTranscoder_def)
qed

theorem pings_spacing_witness:
  "fresh newWorld
   \<and> sorted (0 # clockReadings [ReportStart transcodeParams, Tick 1 5000 5000 False,
                                Tick 1 6000 6000 True, Tick 1 10000 10001 True])
   \<and> pingTimes [ReportStart transcodeParams, Tick 1 5000 5000 False,
                 Tick 1 6000 6000 True, Tick 1 10000 10001 True] newWorld = [5000, 10001]
   \<and> sorted_wrt (\<lambda>a b. a + 5000 \<le> b)
        (pingTimes [ReportStart transcodeParams, Tick 1 5000 5000 False,
                    Tick 1 6000 6000 True, Tick 1 10000 10001 True] newWorld)
   \<and> lastTranscoderPing (pingTranscoder transcodeParams 5000 5001 newWorld) = 5001
   \<and> lastTranscoderPing (pingTranscoder transcodeParams 4000 4001 newWorld) = 0"
  using pings_at_least_five_seconds_apart
          [of 5000 newWorld transcodeParams 5001 1
              "[ReportStart transcodeParams, Tick 1 5000 5000 False,
                Tick 1 6000 6000 True, Tick 1 10000 10001 True]"]
        pings_at_least_five_seconds_apart
          [of 4000 newWorld transcodeParams 4001 1 "[]"]
  by (simp add: fresh_def newWorld_def transcodeParams_def
        reportPlaybackStart_def restartPingInterval_def stopPingInterval_def clearInterval_def
        setInterval_def emit_def tick_def pingTranscoder_def newEffects_def Let_def)

section \<open>Properties of the playback manager\<close>

lemma resetPlaybackScope_state:
  "playbackState (resetPlaybackScope w)
     = initialPlaybackState\<lparr>runtimeTicks := runtimeTicks (playbackState w)\<rparr>"
  by (simp add: resetPlaybackScope_def initialPlaybackState_def Let_def)

text \<open>
  C4. \<^verbatim>\<open>resetPlaybackScope\<close> assigns the initial value to every field of the
  playback state except \<^verbatim>\<open>runtimeTicks\<close>, which it does not assign: after the
  reset of a state left over from a session the field still holds that session's
  runtime, where the initializer has \<open>0\<close>.
\<close>

theorem resetPlaybackScope_keeps_runtimeTicks:
  "runtimeTicks (playbackState staleWorld) = 36000000000
   \<and> runtimeTicks (playbackState (resetPlaybackScope staleWorld)) = 36000000000
   \<and> runtimeTicks initialPlaybackState = 0
   \<and> playbackState (resetPlaybackScope staleWorld) \<noteq> initialPlaybackState
   \<and> playbackState (resetPlaybackScope staleWorld)
       = initialPlaybackState\<lparr>runtimeTicks := 36000000000\<rparr>"
  by (simp add: resetPlaybackScope_state staleWorld_def newWorld_def initialPlaybackState_def)

lemma newEffects_append [simp]: "trace w' = trace w @ es \<Longrightarrow> newEffects w w' = es"
  by (simp add: newEffects_def)

lemma playItemInternal_opening:
  assumes "playbackInfoResponse env = Some info" "truthy (ErrorCode info) = None"
    "getOptimalMediaSource env (MediaSources info) = Some ms" "RequiresOpening ms"
  shows "playItemInternal env (Some it) opts w =
     (let w4 = getLiveStream env it (PlaySessionId_info info) (getMaxBitrate env)
                 (DeviceProfile (getMaxBitrate env) True) (opt_startPositionTicks opts) ms None None
                 (getPlaybackInfo env it (getMaxBitrate env) (DeviceProfile (getMaxBitrate env) True)
                    (opt_startPositionTicks opts) (opt_mediaSourceId opts)
                    (opt_audioStreamIndex opts) (opt_subtitleStreamIndex opts) None
                    (emit GetMaxBitrate (emit (SetAppStatus ''loading'')
                       (setState (\<lambda>s. s\<lparr>isChangingStream := False\<rparr>) w))))
      in case liveStreamResponse env of
           None \<Rightarrow> (Inl (RequestRejected ''LiveStreams/Open''), w4)
         | Some r \<Rightarrow>
             (case MediaSource r of
                None \<Rightarrow> (Inr (), playMediaSource env (PlaySessionId_info info) it ms opts w4)
              | Some opened \<Rightarrow>
                  (Inr (), playMediaSource env (PlaySessionId_info info) it
                             (checkDirectPlay env opened) opts (emit (CheckDirectPlay opened) w4))))"
  using assms by (simp add: playItemInternal_def Let_def split: option.splits)

text \<open>
  C6. When the source selected from the playback info requires opening, the
  negotiation requests the playback info and then the opening of the live stream, with
  the token of the selected source. If the server answers with a media source,
  \<^verbatim>\<open>checkDirectPlay\<close> is called on the opened source, after the two requests and
  before \<^verbatim>\<open>playMediaSource\<close>, and the opened source as the check leaves it, not the
  selected one, is handed over and becomes the media source of the playback state. If
  the request is rejected the rejection is the result: nothing follows the two requests,
  no other source is tried and nothing is loaded.
\<close>

theorem opened_live_stream_replaces_source:
  "playbackInfoResponse env = Some info \<Longrightarrow> truthy (ErrorCode info) = None \<Longrightarrow>
   getOptimalMediaSource env (MediaSources info) = Some ms \<Longrightarrow> RequiresOpening ms \<Longrightarrow>
   (let dp = DeviceProfile (getMaxBitrate env) True;
        requests =
          [SetAppStatus ''loading'', GetMaxBitrate,
           AuthAjax (''Items/'' @ Id_item it @ ''/PlaybackInfo'')
             (PlaybackInfoBody dp
                \<lparr>UserId = userId env, StartTimeTicks = orZero (opt_startPositionTicks opts),
                 MaxStreamingBitrate = getMaxBitrate env, LiveStreamId = None, ItemId = None,
                 PlaySessionId_query = None, AudioStreamIndex = opt_audioStreamIndex opts,
                 SubtitleStreamIndex = opt_subtitleStreamIndex opts,
                 MediaSourceId = truthy (opt_mediaSourceId opts)\<rparr>),
           AuthAjax ''LiveStreams/Open''
             (LiveStreamBody dp (OpenToken ms)
                \<lparr>UserId = userId env, StartTimeTicks = orZero (opt_startPositionTicks opts),
                 MaxStreamingBitrate = getMaxBitrate env, LiveStreamId = None,
                 ItemId = Some (Id_item it),
                 PlaySessionId_query = Some (PlaySessionId_info info),
                 AudioStreamIndex = None, SubtitleStreamIndex = None, MediaSourceId = None\<rparr>)];
        (result, w') = playItemInternal env (Some it) opts w
    in take 4 (newEffects w w') = requests
       \<and> (\<forall>r opened. liveStreamResponse env = Some r \<and> MediaSource r = Some opened \<longrightarrow>
             result = Inr ()
             \<and> (\<exists>w4. newEffects w w4 = requests @ [CheckDirectPlay opened]
                      \<and> w' = playMediaSource env (PlaySessionId_info info) it
                                (checkDirectPlay env opened) opts w4)
             \<and> mediaSource (playbackState w') = Some (checkDirectPlay env opened)
             \<and> PlaybackMediaSource (playbackState w') = Some (checkDirectPlay env opened))
       \<and> (liveStreamResponse env = None \<longrightarrow>
             result = Inl (RequestRejected ''LiveStreams/Open'')
             \<and> newEffects w w' = requests
             \<and> playbackState w' = (playbackState w)\<lparr>isChangingStream := False\<rparr>))"
proof -
  assume a: "playbackInfoResponse env = Some info" "truthy (ErrorCode info) = None"
    "getOptimalMediaSource env (MediaSources info) = Some ms" "RequiresOpening ms"
  let ?w4 = "getLiveStream env it (PlaySessionId_info info) (getMaxBitrate env)
                 (DeviceProfile (getMaxBitrate env) True) (opt_startPositionTicks opts) ms None None
                 (getPlaybackInfo env it (getMaxBitrate env) (DeviceProfile (getMaxBitrate env) True)
                    (opt_startPositionTicks opts) (opt_mediaSourceId opts)
                    (opt_audioStreamIndex opts) (opt_subtitleStreamIndex opts) None
                    (emit GetMaxBitrate (emit (SetAppStatus ''loading'')
                       (setState (\<lambda>s. s\<lparr>isChangingStream := False\<rparr>) w))))"
  have t4: "trace ?w4 = trace w @
          [SetAppStatus ''loading'', GetMaxBitrate,
           AuthAjax (''Items/'' @ Id_item it @ ''/PlaybackInfo'')
             (PlaybackInfoBody (DeviceProfile (getMaxBitrate env) True)
                \<lparr>UserId = userId env, StartTimeTicks = orZero (opt_startPositionTicks opts),
                 MaxStreamingBitrate = getMaxBitrate env, LiveStreamId = None, ItemId = None,
                 PlaySessionId_query = None, AudioStreamIndex = opt_audioStreamIndex opts,
                 SubtitleStreamIndex = opt_subtitleStreamIndex opts,
                 MediaSourceId = truthy (opt_mediaSourceId opts)\<rparr>),
           AuthAjax ''LiveStreams/Open''
             (LiveStreamBody (DeviceProfile (getMaxBitrate env) True) (OpenToken ms)
                \<lparr>UserId = userId env, StartTimeTicks = orZero (opt_startPositionTicks opts),
                 MaxStreamingBitrate = getMaxBitrate env, LiveStreamId = None,
                 ItemId = Some (Id_item it),
                 PlaySessionId_query = Some (PlaySessionId_info info),
                 AudioStreamIndex = None, SubtitleStreamIndex = None, MediaSourceId = None\<rparr>)]"
    by (simp add: getLiveStream_def getPlaybackInfo_def Let_def truthy_def)
  have s4: "playbackState ?w4 = (playbackState w)\<lparr>isChangingStream := False\<rparr>"
    by simp
  show ?thesis
  proof (cases "liveStreamResponse env")
    case None
    then show ?thesis
      unfolding playItemInternal_opening[OF a] Let_def
      by (simp add: t4 s4 del: getLiveStream_fields getPlaybackInfo_fields)
  next
    case (Some r)
    show ?thesis
    proof (cases "MediaSource r")
      case None
      then show ?thesis
        unfolding playItemInternal_opening[OF a] Let_def
        by (simp add: Some t4 playMediaSource_trace newEffects_def)
    next
      case (Some opened)
      have ex: "\<exists>w4. newEffects w w4 = drop (length (trace w)) (trace ?w4) @ [CheckDirectPlay opened]
                  \<and> playMediaSource env (PlaySessionId_info info) it (checkDirectPlay env opened) opts
                        (emit (CheckDirectPlay opened) ?w4)
                    = playMediaSource env (PlaySessionId_info info) it (checkDirectPlay env opened)
                        opts w4"
        by (rule exI[of _ "emit (CheckDirectPlay opened) ?w4"]) (simp add: t4 newEffects_def)
      show ?thesis
        unfolding playItemInternal_opening[OF a] Let_def
        using ex
        by (simp add: \<open>liveStreamResponse env = Some r\<close> Some t4 playMediaSource_trace newEffects_def)
    qed
  qed
qed


theorem opened_live_stream_witness:
  "playbackInfoResponse sampleEnv
     = Some \<lparr>ErrorCode = None, MediaSources = [tunerSource], PlaySessionId_info = ''session-b''\<rparr>
   \<and> getOptimalMediaSource sampleEnv [tunerSource] = Some tunerSource
   \<and> RequiresOpening tunerSource
   \<and> liveStreamResponse sampleEnv = Some \<lparr>MediaSource = Some openedSource\<rparr>
   \<and> fst (playItemInternal sampleEnv (Some itemA) sampleOptions newWorld) = Inr ()
   \<and> mediaSource (playbackState (snd (playItemInternal sampleEnv (Some itemA) sampleOptions newWorld)))
       = Some (openedSource\<lparr>SupportsDirectPlay := False\<rparr>)
   \<and> liveStreamResponse rejectingEnv = None
   \<and> fst (playItemInternal rejectingEnv (Some itemA) sampleOptions newWorld)
       = Inl (RequestRejected ''LiveStreams/Open'')
   \<and> length (newEffects newWorld
               (snd (playItemInternal rejectingEnv (Some itemA) sampleOptions newWorld))) = 4
   \<and> mediaSource (playbackState (snd (playItemInternal rejectingEnv (Some itemA) sampleOptions newWorld)))
       = None"
  using opened_live_stream_replaces_source
          [of sampleEnv "\<lparr>ErrorCode = None, MediaSources = [tunerSource],
                           PlaySessionId_info = ''session-b''\<rparr>" tunerSource itemA sampleOptions newWorld]
        opened_live_stream_replaces_source
          [of rejectingEnv "\<lparr>ErrorCode = None, MediaSources = [tunerSource],
                           PlaySessionId_info = ''session-b''\<rparr>" tunerSource itemA sampleOptions newWorld]
  by (simp add: sampleEnv_def rejectingEnv_def tunerSource_def truthy_def Let_def
        newWorld_def initialPlaybackState_def split: prod.splits)

lemma getReportingParams_playNextItemBool [simp]:
  "getReportingParams (s\<lparr>playNextItemBool := c\<rparr>) = getReportingParams s"
  by (simp add: getReportingParams_def)

lemma stop_trace:
  "trace (stop c w) =
     trace w @ (if pingInterval w \<noteq> Num 0 then [ClearInterval (pingInterval w)] else [])
       @ [BroadcastToMessageBus ''playbackstop'' ((playbackState w)\<lparr>playNextItemBool := c\<rparr>)
            (getReportingParams (playbackState w)),
          AuthAjax ''Sessions/Playing/Stopped'' (ReportBody (getReportingParams (playbackState w))),
          PlayerManagerStop, StartBackdropInterval]"
  by (simp add: stop_def jellyfinActions_stop_def reportPlaybackStopped_def Let_def
        stopPingInterval_def clearInterval_def)

lemma stop_playlist [simp]:
  "activePlaylist (stop c w) = []" "activePlaylistIndex (stop c w) = - 1"
  by (simp_all add: stop_def Let_def)

lemma playItemInternal_requests:
  "\<exists>es. trace (snd (playItemInternal env (Some it) opts w)) = trace w @ es
        \<and> filter isStopReport es = []
        \<and> filter isPlaybackInfoRequest es =
            [AuthAjax (''Items/'' @ Id_item it @ ''/PlaybackInfo'')
               (PlaybackInfoBody (DeviceProfile (getMaxBitrate env) True)
                  \<lparr>UserId = userId env, StartTimeTicks = orZero (opt_startPositionTicks opts),
                   MaxStreamingBitrate = getMaxBitrate env, LiveStreamId = None, ItemId = None,
                   PlaySessionId_query = None, AudioStreamIndex = opt_audioStreamIndex opts,
                   SubtitleStreamIndex = opt_subtitleStreamIndex opts,
                   MediaSourceId = truthy (opt_mediaSourceId opts)\<rparr>)]"
  by (simp add: playItemInternal_def Let_def getPlaybackInfo_def getLiveStream_def
        playMediaSource_trace truthy_def split: option.splits prod.splits sum.splits)


text \<open>
  C1. In any state reached from the freshly loaded module, \<^verbatim>\<open>playItem\<close> with
  \<open>stopPlayer\<close> true first runs the whole of the manager's \<^verbatim>\<open>stop\<close> and then the
  negotiation: its effects are those of the stop followed by those of the negotiation.
  The stop holds exactly one stop report, for the play session of the playback state as
  it was, and no playback-info request, and it leaves no interval; the negotiation holds
  no stop report and the one playback-info request for the new item.
\<close>

theorem playItem_stops_before_negotiating:
  "fresh w0 \<Longrightarrow>
   (let w = run xs w0;
        w1 = stop True w;
        w' = snd (playItem env (Some it) opts True w);
        stopReport = AuthAjax ''Sessions/Playing/Stopped''
                       (ReportBody \<lparr>PlayMethod = playMethod (playbackState w),
                                    PlaySessionId = playSessionId (playbackState w)\<rparr>)
    in newEffects w w' = newEffects w w1 @ newEffects w1 w'
       \<and> newEffects w w1 =
            (if pingInterval w \<noteq> Num 0 then [ClearInterval (pingInterval w)] else [])
            @ [BroadcastToMessageBus ''playbackstop'' ((playbackState w)\<lparr>playNextItemBool := True\<rparr>)
                 \<lparr>PlayMethod = playMethod (playbackState w),
                  PlaySessionId = playSessionId (playbackState w)\<rparr>,
               stopReport, PlayerManagerStop, StartBackdropInterval]
       \<and> timers w1 = [] \<and> pingInterval w1 = Num 0
       \<and> filter isPlaybackInfoRequest (newEffects w w1) = []
       \<and> filter isStopReport (newEffects w w1) = [stopReport]
       \<and> filter isStopReport (newEffects w1 w') = []
       \<and> filter isPlaybackInfoRequest (newEffects w1 w') =
            [AuthAjax (''Items/'' @ Id_item it @ ''/PlaybackInfo'')
               (PlaybackInfoBody (DeviceProfile (getMaxBitrate env) True)
                  \<lparr>UserId = userId env, StartTimeTicks = orZero (opt_startPositionTicks opts),
                   MaxStreamingBitrate = getMaxBitrate env, LiveStreamId = None, ItemId = None,
                   PlaySessionId_query = None, AudioStreamIndex = opt_audioStreamIndex opts,
                   SubtitleStreamIndex = opt_subtitleStreamIndex opts,
                   MediaSourceId = truthy (opt_mediaSourceId opts)\<rparr>)]
       \<and> timers w' = [])"
proof -
  assume f: "fresh w0"
  then have inv: "timerInv (run xs w0)" by (simp add: run_timerInv fresh_timerInv)
  let ?w = "run xs w0"
  let ?w1 = "stop True ?w"
  obtain es where es: "trace (snd (playItemInternal env (Some it) opts ?w1)) = trace ?w1 @ es"
      "filter isStopReport es = []"
      "filter isPlaybackInfoRequest es =
            [AuthAjax (''Items/'' @ Id_item it @ ''/PlaybackInfo'')
               (PlaybackInfoBody (DeviceProfile (getMaxBitrate env) True)
                  \<lparr>UserId = userId env, StartTimeTicks = orZero (opt_startPositionTicks opts),
                   MaxStreamingBitrate = getMaxBitrate env, LiveStreamId = None, ItemId = None,
                   PlaySessionId_query = None, AudioStreamIndex = opt_audioStreamIndex opts,
                   SubtitleStreamIndex = opt_subtitleStreamIndex opts,
                   MediaSourceId = truthy (opt_mediaSourceId opts)\<rparr>)]"
    using playItemInternal_requests[of env it opts ?w1] by blast
  have w': "snd (playItem env (Some it) opts True ?w) = snd (playItemInternal env (Some it) opts ?w1)"
    by (simp add: playItem_def onStopPlayerBeforePlaybackDone_def Let_def)
  have n1: "newEffects ?w1 (snd (playItemInternal env (Some it) opts ?w1)) = es"
    using es(1) by simp
  have n0: "newEffects ?w (snd (playItemInternal env (Some it) opts ?w1))
              = newEffects ?w ?w1 @ es"
    using es(1) by (simp add: newEffects_def stop_trace)
  show ?thesis
    unfolding Let_def w' n1 n0
    using stop_timers[OF inv, of True] es(2,3)
    by (simp add: stop_trace getReportingParams_def)
qed


theorem playItem_stops_witness:
  "fresh staleWorld
   \<and> timers (run [ReportStart transcodeParams] staleWorld) = [(1, transcodeParams)]
   \<and> newEffects (run [ReportStart transcodeParams] staleWorld)
        (stop True (run [ReportStart transcodeParams] staleWorld))
       = [ClearInterval (Num 1),
          BroadcastToMessageBus ''playbackstop''
            ((playbackState staleWorld)\<lparr>playNextItemBool := True\<rparr>) transcodeParams,
          AuthAjax ''Sessions/Playing/Stopped'' (ReportBody transcodeParams),
          PlayerManagerStop, StartBackdropInterval]
   \<and> filter isStopReport
        (newEffects (run [ReportStart transcodeParams] staleWorld)
           (snd (playItem sampleEnv (Some itemB) sampleOptions True
                   (run [ReportStart transcodeParams] staleWorld))))
       = [AuthAjax ''Sessions/Playing/Stopped'' (ReportBody transcodeParams)]
   \<and> timers (snd (playItem sampleEnv (Some itemB) sampleOptions True
                     (run [ReportStart transcodeParams] staleWorld))) = []"
  using playItem_stops_before_negotiating
          [of staleWorld "[ReportStart transcodeParams]" sampleEnv itemB sampleOptions]
  by (simp add: fresh_def staleWorld_def newWorld_def transcodeParams_def initialPlaybackState_def
        reportPlaybackStart_def restartPingInterval_def stopPingInterval_def clearInterval_def
        setInterval_def emit_def Let_def)

lemma playItemInternal_window [simp]:
  "playlist (snd (playItemInternal env i opts w)) = playlist w"
  "currentPlaylistIndex (snd (playItemInternal env i opts w)) = currentPlaylistIndex w"
  by (simp_all add: playItemInternal_def playMediaSource_def load_def resetPlaybackScope_def
        getPlaybackInfo_def getLiveStream_def emit_def setState_def Let_def
        split: option.splits sum.splits prod.splits)

lemma stop_window [simp]:
  "playlist (stop c w) = playlist w"
  "currentPlaylistIndex (stop c w) = currentPlaylistIndex w"
  by (simp_all add: stop_def jellyfinActions_stop_def reportPlaybackStopped_def
        stopPingInterval_def clearInterval_def emit_def setState_def Let_def)

lemma playItem_playlist [simp]:
  "activePlaylist (snd (playItem env i opts stopPlayer w))
     = (if stopPlayer then [] else activePlaylist w)"
  "activePlaylistIndex (snd (playItem env i opts stopPlayer w))
     = (if stopPlayer then - 1 else activePlaylistIndex w)"
  "playlist (snd (playItem env i opts stopPlayer w)) = playlist w"
  by (simp_all add: playItem_def onStopPlayerBeforePlaybackDone_def)

lemma playItem_undefined:
  "fst (playItem env None opts stopPlayer w) = Inl TypeError"
  by (simp add: playItem_def onStopPlayerBeforePlaybackDone_def playItemInternal_def Let_def)

lemma playNextItem_none:
  "getNextPlaybackItemInfo env w = None \<Longrightarrow> playNextItem env opts stopPlayer w = (False, w)"
  by (simp add: playNextItem_def)

lemma playPreviousItem_first:
  "activePlaylistIndex w \<le> 0 \<Longrightarrow> playPreviousItem env opts w = (False, w)"
  by (simp add: playPreviousItem_def)

lemma repeatedly_declined:
  "f w = (False, w) \<Longrightarrow> repeatedly n f w = (replicate n False, w)"
  by (induction n) simp_all

text \<open>
  What the two operations do when they decline: \<^verbatim>\<open>playNextItem\<close> declines exactly
  when \<^verbatim>\<open>getNextPlaybackItemInfo\<close> has no item, \<^verbatim>\<open>playPreviousItem\<close> exactly when
  the playlist index is not positive. A call that declines returns false and leaves the
  whole state, the trace included, as it was, and so does any number of such calls.
  When the index does not lie beyond the end of the playlist, a state without a previous
  item has a non-positive index.
\<close>

lemma declined_calls_change_nothing:
  "(getNextPlaybackItemInfo env w = None \<longrightarrow>
      playNextItem env opts stopPlayer w = (False, w)
      \<and> repeatedly n (playNextItem env opts stopPlayer) w = (replicate n False, w))
   \<and> (fst (playNextItem env opts stopPlayer w) \<longleftrightarrow> getNextPlaybackItemInfo env w \<noteq> None)
   \<and> (activePlaylistIndex w \<le> 0 \<longrightarrow>
        \<not> hasPreviousItem w
        \<and> playPreviousItem env opts w = (False, w)
        \<and> repeatedly n (playPreviousItem env opts) w = (replicate n False, w))
   \<and> (fst (playPreviousItem env opts w) \<longleftrightarrow> 0 < activePlaylistIndex w)
   \<and> (activePlaylistIndex w \<le> int (length (activePlaylist w)) \<and> \<not> hasPreviousItem w \<longrightarrow>
        playPreviousItem env opts w = (False, w)
        \<and> repeatedly n (playPreviousItem env opts) w = (replicate n False, w))"
proof -
  have prev: "activePlaylistIndex w \<le> 0"
    if "activePlaylistIndex w \<le> int (length (activePlaylist w))" "\<not> hasPreviousItem w"
    using that by (simp add: hasPreviousItem_def at_def split: if_splits)
  have noprev: "\<not> hasPreviousItem w" if "activePlaylistIndex w \<le> 0"
    using that by (simp add: hasPreviousItem_def at_def)
  have fstn: "fst (playNextItem env opts stopPlayer w) \<longleftrightarrow> getNextPlaybackItemInfo env w \<noteq> None"
    by (simp add: playNextItem_def Let_def split: option.splits prod.splits)
  have fstp: "fst (playPreviousItem env opts w) \<longleftrightarrow> 0 < activePlaylistIndex w"
    by (simp add: playPreviousItem_def Let_def)
  show ?thesis
    using prev noprev fstn fstp
    by (auto simp: playNextItem_none playPreviousItem_first repeatedly_declined)
qed

lemma playNextItem_some:
  "getNextPlaybackItemInfo env w = Some (i, it) \<Longrightarrow>
     fst (playNextItem env opts stopPlayer w)
     \<and> activePlaylist (snd (playNextItem env opts stopPlayer w))
         = (if stopPlayer then [] else activePlaylist w)
     \<and> activePlaylistIndex (snd (playNextItem env opts stopPlayer w))
         = (if stopPlayer then - 1 else i)
     \<and> playlist (snd (playNextItem env opts stopPlayer w)) = playlist w"
  by (simp add: playNextItem_def Let_def)

lemma playPreviousItem_some:
  "0 < activePlaylistIndex w \<Longrightarrow>
     fst (playPreviousItem env opts w)
     \<and> activePlaylist (snd (playPreviousItem env opts w)) = []
     \<and> activePlaylistIndex (snd (playPreviousItem env opts w)) = - 1
     \<and> playlist (snd (playPreviousItem env opts w)) = playlist w"
  by (simp add: playPreviousItem_def Let_def)

lemma walk_started:
  "activePlaylist (snd (playFromOptionsInternal firstItemEnv sampleOptions newWorld)) = [itemA, itemB]
   \<and> activePlaylistIndex (snd (playFromOptionsInternal firstItemEnv sampleOptions newWorld)) = 0
   \<and> playlist (snd (playFromOptionsInternal firstItemEnv sampleOptions newWorld)) = [itemA, itemB]"
  by (simp add: playFromOptionsInternal_def playNextItem_def firstItemEnv_def Let_def
        newWorld_def sampleOptions_def)

lemma secondItemEnv_next [simp]: "getNextPlaybackItemInfo secondItemEnv w = Some (1, itemB)"
  by (simp add: secondItemEnv_def)

lemma walkedWorld_playlist:
  "activePlaylist walkedWorld = [] \<and> activePlaylistIndex walkedWorld = 1
   \<and> playlist walkedWorld = [itemA, itemB]"
proof -
  let ?w1 = "snd (playFromOptionsInternal firstItemEnv sampleOptions newWorld)"
  let ?w2 = "snd (playNextItem secondItemEnv sampleOptions False ?w1)"
  let ?w3 = "snd (playPreviousItem sampleEnv sampleOptions ?w2)"
  have 2: "activePlaylistIndex ?w2 = 1" "playlist ?w2 = [itemA, itemB]"
    using playNextItem_some[of secondItemEnv ?w1 1 itemB sampleOptions False] walk_started
    by simp_all
  have 3: "activePlaylist ?w3 = []" "playlist ?w3 = [itemA, itemB]"
    using playPreviousItem_some[of ?w2 sampleEnv sampleOptions] 2 by simp_all
  show ?thesis
    unfolding walkedWorld_def
    using playNextItem_some[of secondItemEnv ?w3 1 itemB sampleOptions False] 3 by simp
qed

text \<open>
  C7. After a walk through a playlist of two items (started, played on, taken back,
  played on again) the manager has index 1 and an empty playlist of its own, emptied by
  the stop that \<^verbatim>\<open>playPreviousItem\<close> runs. The playlist has no previous item there.
  \<^verbatim>\<open>playPreviousItem\<close> passes its guard, which looks at the index only, and returns
  true; it reads \<^verbatim>\<open>undefined\<close> from the empty playlist, runs the whole stop and hands
  \<^verbatim>\<open>undefined\<close> to \<^verbatim>\<open>playItem\<close>, which fails at \<^verbatim>\<open>item.Id\<close>; the index ends
  at \<open>- 1\<close>. The claim has the call return false and change nothing.
\<close>

theorem playPreviousItem_advances_beyond_playlist:
  "activePlaylist walkedWorld = []
   \<and> activePlaylistIndex walkedWorld = 1
   \<and> playlist walkedWorld = [itemA, itemB]
   \<and> \<not> hasPreviousItem walkedWorld
   \<and> at (activePlaylist walkedWorld) (activePlaylistIndex walkedWorld - 1) = None
   \<and> fst (playPreviousItem sampleEnv sampleOptions walkedWorld)
   \<and> snd (playPreviousItem sampleEnv sampleOptions walkedWorld)
       = snd (playItem sampleEnv None sampleOptions True (walkedWorld\<lparr>activePlaylistIndex := 0\<rparr>))
   \<and> fst (playItem sampleEnv None sampleOptions True (walkedWorld\<lparr>activePlaylistIndex := 0\<rparr>))
       = Inl TypeError
   \<and> activePlaylistIndex (snd (playPreviousItem sampleEnv sampleOptions walkedWorld)) = - 1
   \<and> PlayerManagerStop
       \<in> set (newEffects walkedWorld (snd (playPreviousItem sampleEnv sampleOptions walkedWorld)))"
proof -
  have tr: "trace (snd (playPreviousItem sampleEnv sampleOptions walkedWorld))
              = trace walkedWorld
                @ newEffects walkedWorld (stop True (walkedWorld\<lparr>activePlaylistIndex := 0\<rparr>))
                @ [SetAppStatus ''loading'', GetMaxBitrate]"
    by (simp add: playPreviousItem_def walkedWorld_playlist at_def playItem_def
          onStopPlayerBeforePlaybackDone_def playItemInternal_def Let_def stop_trace newEffects_def)
  show ?thesis
    using tr
    by (simp add: walkedWorld_playlist hasPreviousItem_def at_def playItem_undefined
          playPreviousItem_def Let_def newEffects_def stop_trace)
qed

section \<open>Properties of the bitrate detection\<close>

lemma detectBitrate_clamped:
  "byteLimit \<le> n \<Longrightarrow>
     detectBitrate getDownloadSpeed k n =
       (case getDownloadSpeed k byteLimit of
          Inl e \<Rightarrow> Some (Inl e)
        | Inr bitrate \<Rightarrow> Some (Inr (fourFifths bitrate)))"
  by (subst detectBitrate.simps) (auto simp: Let_def split: sum.splits)

lemma detectBitrate_at_limit:
  "byteLimit \<le> n \<Longrightarrow> \<exists>r. detectBitrate getDownloadSpeed k n = Some r"
  by (simp add: detectBitrate_clamped split: sum.splits)

lemma detectBitrate_within_doublings:
  "0 < n \<Longrightarrow> byteLimit \<le> n * 2 ^ j \<Longrightarrow> \<exists>r. detectBitrate getDownloadSpeed k n = Some r"
proof (induction j arbitrary: k n)
  case 0
  then show ?case by (simp add: detectBitrate_at_limit)
next
  case (Suc j)
  show ?case
  proof (cases "byteLimit \<le> n")
    case True
    then show ?thesis by (rule detectBitrate_at_limit)
  next
    case False
    have "\<exists>r. detectBitrate getDownloadSpeed (Suc k) (n * 2) = Some r"
      using Suc.IH[of "n * 2" "Suc k"] Suc.prems by (simp add: mult.assoc)
    then show ?thesis
      using False by (subst detectBitrate.simps) (auto simp: Let_def split: sum.splits)
  qed
qed

lemma doublings_reach_limit: "0 < (n::int) \<Longrightarrow> byteLimit \<le> n * 2 ^ 24"
proof -
  assume n: "0 < n"
  have "(2::int) ^ 24 \<le> n * 2 ^ 24" using n by simp
  then show ?thesis by (simp add: byteLimit_def)
qed

text \<open>
  With no bytes to download, measurements that are not below zero (zero, as a download
  of no bytes that takes some time gives, or more, or no number at all) never let the
  function return.
\<close>

lemma detectBitrate_zero_never_returns:
  assumes "detectBitrate s k n = Some r"
  shows "(\<forall>j. \<exists>b. s j 0 = Inr b \<and> \<not> belowQuarter b 0) \<longrightarrow> n \<noteq> 0"
proof (rule detectBitrate.raw_induct
         [where P = "\<lambda>s k n r. (\<forall>j. \<exists>b. s j 0 = Inr b \<and> \<not> belowQuarter b 0) \<longrightarrow> n \<noteq> 0",
          OF _ assms])
  fix f getDownloadSpeed k n y
  assume IH: "\<And>s k n r. f s k n = Some r \<Longrightarrow>
                (\<forall>j. \<exists>b. s j 0 = Inr b \<and> \<not> belowQuarter b 0) \<longrightarrow> n \<noteq> 0"
    and body: "(let numBytes = if byteLimit < n then byteLimit else n
        in case getDownloadSpeed k numBytes of
             Inl e \<Rightarrow> Some (Inl e)
           | Inr bitrate \<Rightarrow>
               if belowQuarter bitrate numBytes \<or> byteLimit \<le> numBytes
               then Some (Inr (fourFifths bitrate))
               else f getDownloadSpeed (Suc k) (numBytes * 2)) = Some y"
  show "(\<forall>j. \<exists>b. getDownloadSpeed j 0 = Inr b \<and> \<not> belowQuarter b 0) \<longrightarrow> n \<noteq> 0"
  proof (intro impI notI)
    assume s: "\<forall>j. \<exists>b. getDownloadSpeed j 0 = Inr b \<and> \<not> belowQuarter b 0" and n: "n = 0"
    from s obtain b where b: "getDownloadSpeed k 0 = Inr b" "\<not> belowQuarter b 0" by blast
    from body have "f getDownloadSpeed (Suc k) 0 = Some y"
      by (simp add: n b byteLimit_def)
    with IH s show False by blast
  qed
qed

text \<open>
  C10, as the function has it. For a positive number of bytes \<^verbatim>\<open>detectBitrate\<close>
  returns, with a bitrate or with the rejection of a download, whatever the downloads
  measure: each call that recurses doubles the size, and a size at or above the limit
  is clamped to the limit and answered from one download.
\<close>

theorem detectBitrate_returns_for_positive_sizes:
  "(0 < numBytes \<longrightarrow> (\<exists>r. detectBitrate getDownloadSpeed k numBytes = Some r))
   \<and> (byteLimit \<le> numBytes \<longrightarrow>
        detectBitrate getDownloadSpeed k numBytes =
          (case getDownloadSpeed k byteLimit of
             Inl e \<Rightarrow> Some (Inl e)
           | Inr bitrate \<Rightarrow> Some (Inr (fourFifths bitrate))))"
  using detectBitrate_within_doublings[of numBytes 24 getDownloadSpeed k]
    doublings_reach_limit[of numBytes] detectBitrate_clamped[of numBytes getDownloadSpeed k]
  by simp

theorem detectBitrate_witness:
  "(0::int) < 500000
   \<and> (\<exists>r. detectBitrate oneSecondDownloads 0 500000 = Some r)
   \<and> detectBitrate oneSecondDownloads 0 500000 = Some (Inr (Fin 64000000))
   \<and> byteLimit \<le> 20000000
   \<and> detectBitrate oneSecondDownloads 0 20000000 = Some (Inr (Fin 64000000))"
  using detectBitrate_returns_for_positive_sizes[of 500000 oneSecondDownloads 0]
    detectBitrate_returns_for_positive_sizes[of 20000000 oneSecondDownloads 0]
  by (simp add: detectBitrate.simps byteLimit_def oneSecondDownloads_def mathRound_def)

text \<open>
  C10 as stated has the function terminate for every input. Doubling zero gives zero:
  with zero bytes and downloads that succeed, no call ever meets the condition to
  return, and the function does not return.
\<close>

theorem detectBitrate_zero_counterexample:
  "detectBitrate oneSecondDownloads 0 0 = None"
  using detectBitrate_zero_never_returns[of oneSecondDownloads 0 0]
  by (cases "detectBitrate oneSecondDownloads 0 0") (auto simp: oneSecondDownloads_def)

end
